theory Spec2Isabelle
  imports Main "HOL-Library.Word"
begin

section \<open>The gotext Locale registry\<close>

text \<open>
  The sources hold two versions of the type \<open>Locale\<close>:
  \<^item> the one that keeps its domains in a \<open>sync.Map\<close> and offers \<open>Get\<close>, \<open>GetN\<close>,
    \<open>GetD\<close>, \<open>GetND\<close>, \<open>GetC\<close>, \<open>GetNC\<close>, \<open>GetDC\<close>, \<open>GetNDC\<close>, \<open>AddTranslator\<close>,
    \<open>MarshalBinary\<close> and \<open>UnmarshalBinary\<close> (part_000, lines 1 to 288); its functions
    \<open>findExt\<close> and \<open>AddDomain\<close> are called \<open>findExtS\<close> and \<open>AddDomainS\<close> below;
  \<^item> the one that keeps its domains in a Go map and offers \<open>Gettext\<close>, \<open>NGettext\<close>,
    \<open>DGettext\<close>, \<open>DNGettext\<close>, \<open>PGettext\<close>, \<open>NPGettext\<close>, \<open>DPGettext\<close>, \<open>DNPGettext\<close>
    (part_000, lines 289 to 512); its functions \<open>findExt\<close> and \<open>AddDomain\<close> are called
    \<open>findExtG\<close> and \<open>AddDomainG\<close> below.
  Both share the fields \<open>path\<close>, \<open>lang\<close>, \<open>Domains\<close> and \<open>defaultDomain\<close>; the record is
  polymorphic in the type of \<open>Domains\<close>.

  Go strings are byte sequences and \<open>len\<close> counts bytes, as \<open>length\<close> does on \<open>string\<close>.
\<close>

subsection \<open>Errors, panics and observable events\<close>

text \<open>A non-nil Go \<open>error\<close> is a message; \<open>goerror option\<close> is an \<open>error\<close> that may be nil.\<close>

type_synonym goerror = string

type_synonym bytes = "8 word list"

text \<open>The run-time panics the modelled code can raise.\<close>

datatype panic =
  SliceBoundsOutOfRange
| NilInterfaceConversion
| NilPointerDereference

text \<open>
  What a call does besides computing its result, in program order: \<open>os.Stat\<close> on a file
  name, \<open>ParseFile\<close> of a new \<open>Po\<close> (\<open>''po''\<close>) or \<open>Mo\<close> (\<open>''mo''\<close>) object on a file,
  taking and releasing the Locale's exclusive lock, and the store of a domain's entry.
\<close>

datatype event =
  Stat string
| ParseFile string string
| Lock
| Unlock
| Store string

subsection \<open>The environment: standard library, file system and the parsers\<close>

text \<open>
  \<open>path.Join\<close> and \<open>os.Stat\<close> belong to the Go standard library; the types \<open>Po\<close> and
  \<open>Mo\<close> with their method \<open>ParseFile\<close> are not part of the sources at hand. They are
  parameters: \<open>statOk f\<close> says that \<open>os.Stat(f)\<close> returns a nil error, \<open>parsePo f\<close> is the
  object that \<open>new(Po)\<close> followed by \<open>ParseFile(f)\<close> yields, \<open>parseMo f\<close> likewise for
  \<open>Mo\<close>.
\<close>

record 't env =
  pathJoin :: "string list \<Rightarrow> string"
  statOk :: "string \<Rightarrow> bool"
  parsePo :: "string \<Rightarrow> 't"
  parseMo :: "string \<Rightarrow> 't"

subsection \<open>Translators\<close>

text \<open>
  The interface \<open>Translator\<close> of translator.go, as the record of its query methods
  (\<open>ParseFile\<close> and \<open>Parse\<close> are what the environment's parsers stand for).
\<close>

record Translator =
  tr_Get :: "string \<Rightarrow> string"
  tr_GetN :: "string \<Rightarrow> string \<Rightarrow> int \<Rightarrow> string"
  tr_GetC :: "string \<Rightarrow> string \<Rightarrow> string"
  tr_GetNC :: "string \<Rightarrow> string \<Rightarrow> int \<Rightarrow> string \<Rightarrow> string"

text \<open>
  The methods that the \<open>sync.Map\<close> Locale calls on a stored translator: \<open>GetN\<close> and
  \<open>GetNC\<close> with variadic arguments of type \<open>interface{}\<close> (the type variable \<open>'v\<close>), and
  \<open>MarshalBinary\<close>, which returns bytes and an error.
\<close>

record 'v TranslatorS =
  trs_GetN :: "string \<Rightarrow> string \<Rightarrow> int \<Rightarrow> 'v list \<Rightarrow> string"
  trs_GetNC :: "string \<Rightarrow> string \<Rightarrow> int \<Rightarrow> string \<Rightarrow> 'v list \<Rightarrow> string"
  trs_MarshalBinary :: "bytes \<times> goerror option"

subsection \<open>The Locale\<close>

record 'd Locale =
  path :: string
  lang :: string
  Domains :: 'd
  defaultDomain :: string

text \<open>
  A \<open>sync.Map\<close> holds values of type \<open>interface{}\<close>: a key is absent (\<open>None\<close>), or
  present with a nil interface (\<open>Some None\<close>) or with a translator.
\<close>

type_synonym 'v LocaleS = "(string \<rightharpoonup> 'v TranslatorS option) Locale"

text \<open>
  A Go map may itself be nil (\<open>None\<close>); reading a nil map finds no key. An entry may
  hold a nil interface.
\<close>

type_synonym LocaleG = "(string \<rightharpoonup> Translator option) option Locale"

definition GetDomain :: "'d Locale \<Rightarrow> string" where
  "GetDomain l = defaultDomain l"

definition SetDomain :: "'d Locale \<Rightarrow> string \<Rightarrow> 'd Locale" where
  "SetDomain l dm = l\<lparr>defaultDomain := dm\<rparr>"

subsection \<open>printf (part_001, lines 389 to 396)\<close>

text \<open>\<open>fmt.Sprintf\<close> is the parameter \<open>Sprintf\<close>.\<close>

definition printf :: "(string \<Rightarrow> 'v list \<Rightarrow> string) \<Rightarrow> string \<Rightarrow> 'v list \<Rightarrow> string" where
  "printf Sprintf str vars = (if length vars > 0 then Sprintf str vars else str)"

subsection \<open>Lookups of the sync.Map Locale (part_000, lines 167 to 225)\<close>

text \<open>
  The helper \<open>Printf\<close> that these functions call is not part of the sources at hand; it is
  the parameter \<open>Pf\<close>. The type assertion \<open>v.(Translator)\<close> panics on a nil interface.
\<close>

definition GetND ::
  "(string \<Rightarrow> 'v list \<Rightarrow> string) \<Rightarrow> 'v LocaleS \<Rightarrow> string \<Rightarrow> string \<Rightarrow> string \<Rightarrow> int \<Rightarrow> 'v list
    \<Rightarrow> panic + string" where
  "GetND Pf l dm str plural n vars =
    (case Domains l dm of
       Some v \<Rightarrow>
         (case v of
            Some t \<Rightarrow> Inr (trs_GetN t str plural n vars)
          | None \<Rightarrow> Inl NilInterfaceConversion)
     | None \<Rightarrow> Inr (Pf plural vars))"

definition GetNDC ::
  "(string \<Rightarrow> 'v list \<Rightarrow> string) \<Rightarrow> 'v LocaleS \<Rightarrow> string \<Rightarrow> string \<Rightarrow> string \<Rightarrow> int \<Rightarrow> string
    \<Rightarrow> 'v list \<Rightarrow> panic + string" where
  "GetNDC Pf l dm str plural n ctx vars =
    (case Domains l dm of
       Some v \<Rightarrow>
         (case v of
            Some t \<Rightarrow> Inr (trs_GetNC t str plural n ctx vars)
          | None \<Rightarrow> Inl NilInterfaceConversion)
     | None \<Rightarrow> Inr (Pf plural vars))"

definition GetD ::
  "(string \<Rightarrow> 'v list \<Rightarrow> string) \<Rightarrow> 'v LocaleS \<Rightarrow> string \<Rightarrow> string \<Rightarrow> 'v list \<Rightarrow> panic + string" where
  "GetD Pf l dm str vars = GetND Pf l dm str str 1 vars"

definition GetDC ::
  "(string \<Rightarrow> 'v list \<Rightarrow> string) \<Rightarrow> 'v LocaleS \<Rightarrow> string \<Rightarrow> string \<Rightarrow> string \<Rightarrow> 'v list
    \<Rightarrow> panic + string" where
  "GetDC Pf l dm str ctx vars = GetNDC Pf l dm str str 1 ctx vars"

definition Get ::
  "(string \<Rightarrow> 'v list \<Rightarrow> string) \<Rightarrow> 'v LocaleS \<Rightarrow> string \<Rightarrow> 'v list \<Rightarrow> panic + string" where
  "Get Pf l str vars = GetD Pf l (GetDomain l) str vars"

definition GetN ::
  "(string \<Rightarrow> 'v list \<Rightarrow> string) \<Rightarrow> 'v LocaleS \<Rightarrow> string \<Rightarrow> string \<Rightarrow> int \<Rightarrow> 'v list
    \<Rightarrow> panic + string" where
  "GetN Pf l str plural n vars = GetND Pf l (GetDomain l) str plural n vars"

definition GetC ::
  "(string \<Rightarrow> 'v list \<Rightarrow> string) \<Rightarrow> 'v LocaleS \<Rightarrow> string \<Rightarrow> string \<Rightarrow> 'v list \<Rightarrow> panic + string" where
  "GetC Pf l str ctx vars = GetDC Pf l (GetDomain l) str ctx vars"

definition GetNC ::
  "(string \<Rightarrow> 'v list \<Rightarrow> string) \<Rightarrow> 'v LocaleS \<Rightarrow> string \<Rightarrow> string \<Rightarrow> int \<Rightarrow> string \<Rightarrow> 'v list
    \<Rightarrow> panic + string" where
  "GetNC Pf l str plural n ctx vars = GetNDC Pf l (GetDomain l) str plural n ctx vars"

subsection \<open>Lookups of the Go-map Locale (part_000, lines 440 to 512)\<close>

text \<open>
  The entry that \<open>l.Domains[dom]\<close> reads, with its \<open>ok\<close> flag: \<open>None\<close> when the map is nil
  or has no such key.
\<close>

definition entryG :: "LocaleG \<Rightarrow> string \<Rightarrow> Translator option option" where
  "entryG l dm = (case Domains l of None \<Rightarrow> None | Some m \<Rightarrow> m dm)"

definition DNGettext :: "LocaleG \<Rightarrow> string \<Rightarrow> string \<Rightarrow> string \<Rightarrow> int \<Rightarrow> string" where
  "DNGettext l dm str plural n =
    (case Domains l of
       Some m \<Rightarrow>
         (case m dm of
            Some v \<Rightarrow>
              (case v of
                 Some t \<Rightarrow> tr_GetN t str plural n
               | None \<Rightarrow> plural)
          | None \<Rightarrow> plural)
     | None \<Rightarrow> plural)"

definition DNPGettext :: "LocaleG \<Rightarrow> string \<Rightarrow> string \<Rightarrow> string \<Rightarrow> string \<Rightarrow> int \<Rightarrow> string" where
  "DNPGettext l dm ctx str plural n =
    (case Domains l of
       Some m \<Rightarrow>
         (case m dm of
            Some v \<Rightarrow>
              (case v of
                 Some t \<Rightarrow> tr_GetNC t str plural n ctx
               | None \<Rightarrow> plural)
          | None \<Rightarrow> plural)
     | None \<Rightarrow> plural)"

definition DGettext :: "LocaleG \<Rightarrow> string \<Rightarrow> string \<Rightarrow> string" where
  "DGettext l dm str = DNGettext l dm str str 1"

definition DPGettext :: "LocaleG \<Rightarrow> string \<Rightarrow> string \<Rightarrow> string \<Rightarrow> string" where
  "DPGettext l dm ctx str = DNPGettext l dm ctx str str 1"

definition Gettext :: "LocaleG \<Rightarrow> string \<Rightarrow> string" where
  "Gettext l str = DGettext l (defaultDomain l) str"

definition NGettext :: "LocaleG \<Rightarrow> string \<Rightarrow> string \<Rightarrow> int \<Rightarrow> string" where
  "NGettext l str plural n = DNGettext l (defaultDomain l) str plural n"

definition PGettext :: "LocaleG \<Rightarrow> string \<Rightarrow> string \<Rightarrow> string" where
  "PGettext l ctx str = DPGettext l (defaultDomain l) ctx str"

definition NPGettext :: "LocaleG \<Rightarrow> string \<Rightarrow> string \<Rightarrow> string \<Rightarrow> int \<Rightarrow> string" where
  "NPGettext l ctx str plural n = DNPGettext l (defaultDomain l) ctx str plural n"

subsection \<open>Probing for a file\<close>

text \<open>
  One step \<open>if _, err := os.Stat(filename); err == nil { return filename }\<close> followed by
  the rest of the function body: the events of the call and the string it returns.
\<close>

definition try_stat :: "'t env \<Rightarrow> string \<Rightarrow> event list \<times> string \<Rightarrow> event list \<times> string" where
  "try_stat e filename rest =
    (if statOk e filename then ([Stat filename], filename)
     else (Stat filename # fst rest, snd rest))"

text \<open>The same step inside \<open>if len(l.lang) > 2 { ... }\<close>.\<close>

definition try_stat_if ::
  "bool \<Rightarrow> 't env \<Rightarrow> string \<Rightarrow> event list \<times> string \<Rightarrow> event list \<times> string" where
  "try_stat_if b e filename rest = (if b then try_stat e filename rest else rest)"

text \<open>A computation that runs after the events \<open>t\<close>.\<close>

definition after :: "event list \<Rightarrow> event list \<times> 'a \<Rightarrow> event list \<times> 'a" where
  "after t r = (t @ fst r, snd r)"

subsection \<open>findExt and AddDomain of the sync.Map Locale (part_000, lines 74 to 150)\<close>

text \<open>The second file name is built from \<open>l.lang\<close>, not from the argument \<open>lang\<close>.\<close>

definition findExtS ::
  "'t env \<Rightarrow> 'd Locale \<Rightarrow> string \<Rightarrow> string \<Rightarrow> string \<Rightarrow> event list \<times> string" where
  "findExtS e l dm ext lang' =
    try_stat e (pathJoin e [path l, lang', ''LC_MESSAGES'', dm @ ''.'' @ ext])
      (try_stat e (pathJoin e [path l, lang l, dm @ ''.'' @ ext])
        ([], ''''))"

text \<open>
  The code after the label \<open>nextAddDomain\<close>: the default domain is set under the lock,
  the entry is stored after the lock is released.
\<close>

definition nextAddDomain ::
  "'v LocaleS \<Rightarrow> string \<Rightarrow> 'v TranslatorS \<Rightarrow> event list \<times> (panic + 'v LocaleS)" where
  "nextAddDomain l dm poObj =
    ([Lock, Unlock, Store dm],
     Inr (l\<lparr>defaultDomain := (if defaultDomain l = '''' then dm else defaultDomain l),
            Domains := (Domains l)(dm \<mapsto> Some poObj)\<rparr>))"

text \<open>
  \<open>l.lang[:2]\<close> panics when the tag has fewer than two bytes; it is evaluated once the
  searches under the full tag have found nothing.
\<close>

definition AddDomainS ::
  "'v TranslatorS env \<Rightarrow> 'v LocaleS \<Rightarrow> string \<Rightarrow> event list \<times> (panic + 'v LocaleS)" where
  "AddDomainS e l dm =
    (let r1 = findExtS e l dm ''po'' (lang l) in
     if snd r1 \<noteq> '''' then
       after (fst r1 @ [ParseFile ''po'' (snd r1)]) (nextAddDomain l dm (parsePo e (snd r1)))
     else
      (let r2 = findExtS e l dm ''mo'' (lang l) in
       if snd r2 \<noteq> '''' then
         after (fst r1 @ fst r2 @ [ParseFile ''mo'' (snd r2)])
           (nextAddDomain l dm (parseMo e (snd r2)))
       else if length (lang l) < 2 then (fst r1 @ fst r2, Inl SliceBoundsOutOfRange)
       else
        (let r3 = findExtS e l dm ''po'' (take 2 (lang l)) in
         if snd r3 \<noteq> '''' then
           after (fst r1 @ fst r2 @ fst r3 @ [ParseFile ''po'' (snd r3)])
             (nextAddDomain l dm (parsePo e (snd r3)))
         else
          (let r4 = findExtS e l dm ''mo'' (take 2 (lang l)) in
           if snd r4 \<noteq> '''' then
             after (fst r1 @ fst r2 @ fst r3 @ fst r4 @ [ParseFile ''mo'' (snd r4)])
               (nextAddDomain l dm (parseMo e (snd r4)))
           else (fst r1 @ fst r2 @ fst r3 @ fst r4, Inr l)))))"

text \<open>\<open>AddTranslator\<close> stores whatever interface value it is given, nil included.\<close>

definition AddTranslator ::
  "'v LocaleS \<Rightarrow> string \<Rightarrow> 'v TranslatorS option \<Rightarrow> 'v LocaleS" where
  "AddTranslator l dm tr =
    l\<lparr>defaultDomain := (if defaultDomain l = '''' then dm else defaultDomain l),
      Domains := (Domains l)(dm \<mapsto> tr)\<rparr>"

subsection \<open>findExt and AddDomain of the Go-map Locale (part_000, lines 359 to 422)\<close>

definition findExtG :: "'t env \<Rightarrow> 'd Locale \<Rightarrow> string \<Rightarrow> string \<Rightarrow> event list \<times> string" where
  "findExtG e l dm ext =
    try_stat e (pathJoin e [path l, lang l, ''LC_MESSAGES'', dm @ ''.'' @ ext])
      (try_stat_if (length (lang l) > 2) e
          (pathJoin e [path l, take 2 (lang l), ''LC_MESSAGES'', dm @ ''.'' @ ext])
        (try_stat e (pathJoin e [path l, lang l, dm @ ''.'' @ ext])
          (try_stat_if (length (lang l) > 2) e
              (pathJoin e [path l, take 2 (lang l), dm @ ''.'' @ ext])
            ([], ''''))))"

text \<open>
  The code from \<open>l.Lock()\<close> to \<open>l.Unlock()\<close>: a nil map is replaced by an empty one, the
  default domain is set when it is empty, the entry is stored.
\<close>

definition saveG :: "LocaleG \<Rightarrow> string \<Rightarrow> Translator \<Rightarrow> event list \<times> LocaleG" where
  "saveG l dm poObj =
    ([Lock, Store dm, Unlock],
     l\<lparr>defaultDomain := (if defaultDomain l = '''' then dm else defaultDomain l),
       Domains := Some ((case Domains l of None \<Rightarrow> Map.empty | Some m \<Rightarrow> m)(dm \<mapsto> Some poObj))\<rparr>)"

definition AddDomainG :: "Translator env \<Rightarrow> LocaleG \<Rightarrow> string \<Rightarrow> event list \<times> LocaleG" where
  "AddDomainG e l dm =
    (let r1 = findExtG e l dm ''mo'' in
     if snd r1 \<noteq> '''' then
       after (fst r1 @ [ParseFile ''mo'' (snd r1)]) (saveG l dm (parseMo e (snd r1)))
     else
      (let r2 = findExtG e l dm ''po'' in
       if snd r2 \<noteq> '''' then
         after (fst r1 @ fst r2 @ [ParseFile ''po'' (snd r2)]) (saveG l dm (parsePo e (snd r2)))
       else (fst r1 @ fst r2, l)))"

subsection \<open>Reading a trace of events\<close>

text \<open>The file names given to \<open>os.Stat\<close>, and the files parsed with their parser, in order.\<close>

fun probes :: "event list \<Rightarrow> string list" where
  "probes [] = []"
| "probes (Stat f # t) = f # probes t"
| "probes (_ # t) = probes t"

fun parsed :: "event list \<Rightarrow> (string \<times> string) list" where
  "parsed [] = []"
| "parsed (ParseFile x f # t) = (x, f) # parsed t"
| "parsed (_ # t) = parsed t"

text \<open>
  \<open>parse_under_lock held t\<close>: every \<open>ParseFile\<close> of \<open>t\<close> happens while the exclusive lock
  is held, \<open>held\<close> saying whether it is held at the start.
\<close>

fun parse_under_lock :: "bool \<Rightarrow> event list \<Rightarrow> bool" where
  "parse_under_lock held [] = True"
| "parse_under_lock held (Lock # t) = parse_under_lock True t"
| "parse_under_lock held (Unlock # t) = parse_under_lock False t"
| "parse_under_lock held (ParseFile x f # t) = (held \<and> parse_under_lock held t)"
| "parse_under_lock held (_ # t) = parse_under_lock held t"

subsection \<open>The search order in the words of the specification\<close>

text \<open>
  The names probed one after the other until one exists: the list up to and including
  the first existing name.
\<close>

fun probe_until :: "(string \<Rightarrow> bool) \<Rightarrow> string list \<Rightarrow> string list" where
  "probe_until ok [] = []"
| "probe_until ok (f # fs) = (if ok f then [f] else f # probe_until ok fs)"

text \<open>
  The candidates of the specification for one extension, for a base path \<open>P\<close>, a language
  \<open>lg\<close> and a domain: \<open>P/lang/LC_MESSAGES/dom.ext\<close>, \<open>P/lang[:2]/LC_MESSAGES/dom.ext\<close>,
  \<open>P/lang/dom.ext\<close>, \<open>P/lang[:2]/dom.ext\<close>; then all eight, paired with their extension,
  \<open>.mo\<close> before \<open>.po\<close>.
\<close>

definition claimed_for_ext :: "'t env \<Rightarrow> string \<Rightarrow> string \<Rightarrow> string \<Rightarrow> string \<Rightarrow> string list" where
  "claimed_for_ext e P lg dm ext =
    [pathJoin e [P, lg, ''LC_MESSAGES'', dm @ ''.'' @ ext],
     pathJoin e [P, take 2 lg, ''LC_MESSAGES'', dm @ ''.'' @ ext],
     pathJoin e [P, lg, dm @ ''.'' @ ext],
     pathJoin e [P, take 2 lg, dm @ ''.'' @ ext]]"

definition claimed_candidates ::
  "'t env \<Rightarrow> string \<Rightarrow> string \<Rightarrow> string \<Rightarrow> (string \<times> string) list" where
  "claimed_candidates e P lg dm =
    map (Pair ''mo'') (claimed_for_ext e P lg dm ''mo'')
    @ map (Pair ''po'') (claimed_for_ext e P lg dm ''po'')"

text \<open>
  The same lists without the two-letter-prefix candidates when the tag has at most two
  bytes.
\<close>

definition guarded_for_ext :: "'t env \<Rightarrow> string \<Rightarrow> string \<Rightarrow> string \<Rightarrow> string \<Rightarrow> string list" where
  "guarded_for_ext e P lg dm ext =
    (if length lg > 2 then claimed_for_ext e P lg dm ext
     else [pathJoin e [P, lg, ''LC_MESSAGES'', dm @ ''.'' @ ext],
           pathJoin e [P, lg, dm @ ''.'' @ ext]])"

definition guarded_candidates ::
  "'t env \<Rightarrow> string \<Rightarrow> string \<Rightarrow> string \<Rightarrow> (string \<times> string) list" where
  "guarded_candidates e P lg dm =
    map (Pair ''mo'') (guarded_for_ext e P lg dm ''mo'')
    @ map (Pair ''po'') (guarded_for_ext e P lg dm ''po'')"

text \<open>The parser that belongs to an extension.\<close>

definition parser_for :: "'t env \<Rightarrow> string \<Rightarrow> string \<Rightarrow> 't" where
  "parser_for e ext f = (if ext = ''mo'' then parseMo e f else parsePo e f)"

subsection \<open>Sequences of calls on a Locale\<close>

text \<open>
  Calls of \<open>AddDomain\<close> and \<open>AddTranslator\<close> on a sync.Map Locale, one after the other; a
  panic ends the sequence.
\<close>

datatype 'v callS =
  CallAddDomain string
| CallAddTranslator string "'v TranslatorS option"

fun callsS :: "'v TranslatorS env \<Rightarrow> 'v LocaleS \<Rightarrow> 'v callS list \<Rightarrow> panic + 'v LocaleS" where
  "callsS e l [] = Inr l"
| "callsS e l (CallAddDomain dm # cs) =
    (case snd (AddDomainS e l dm) of Inl p \<Rightarrow> Inl p | Inr l' \<Rightarrow> callsS e l' cs)"
| "callsS e l (CallAddTranslator dm tr # cs) = callsS e (AddTranslator l dm tr) cs"

text \<open>Calls of \<open>AddDomain\<close> on a Go-map Locale, one after the other.\<close>

fun callsG :: "Translator env \<Rightarrow> LocaleG \<Rightarrow> string list \<Rightarrow> LocaleG" where
  "callsG e l [] = l"
| "callsG e l (dm # dms) = callsG e (snd (AddDomainG e l dm)) dms"

subsection \<open>The package-level configuration over sync.Map Locales (part_000, lines 543 to 797)\<close>

text \<open>
  The fields of \<open>config\<close>; the record is polymorphic in the type of \<open>storage\<close>, which
  is a \<open>sync.Map\<close> here and a Go map in part_001. \<open>storage\<close> maps a language to a
  \<open>*Locale\<close>. Each Locale is reachable through its storage entry only, so the pointer is
  modelled by the entry and a mutation of the Locale by an update of the entry.
\<close>

record 's config =
  loadDomains :: "string list"
  domain :: string
  loadLanguages :: "string list"
  language :: string
  library :: string
  storage :: 's

type_synonym 'v configS = "(string \<rightharpoonup> 'v LocaleS) config"

text \<open>
  \<open>NewLocale\<close> (part_000, lines 67 to 72); \<open>SimplifiedLocale\<close> is not part of the sources
  at hand and is the parameter \<open>simplified\<close>.
\<close>

definition NewLocale :: "(string \<Rightarrow> string) \<Rightarrow> string \<Rightarrow> string \<Rightarrow> 'v LocaleS" where
  "NewLocale simplified p l =
    \<lparr>path = p, lang = simplified l, Domains = Map.empty, defaultDomain = ''''\<rparr>"

text \<open>Sequencing of calls that leave events and may panic.\<close>

definition bindT ::
  "event list \<times> (panic + 'a) \<Rightarrow> ('a \<Rightarrow> event list \<times> (panic + 'b)) \<Rightarrow> event list \<times> (panic + 'b)" where
  "bindT r f = (case snd r of Inl p \<Rightarrow> (fst r, Inl p) | Inr a \<Rightarrow> after (fst r) (f a))"

text \<open>
  The loop \<open>for _, domain := range c.loadDomains\<close> of \<open>loadStorage\<close>, on the Locale
  \<open>v2\<close>.
\<close>

fun addLoadDomains ::
  "'v TranslatorS env \<Rightarrow> bool \<Rightarrow> 'v LocaleS \<Rightarrow> string list \<Rightarrow> event list \<times> (panic + 'v LocaleS)" where
  "addLoadDomains e force v2 [] = ([], Inr v2)"
| "addLoadDomains e force v2 (d # ds) =
    bindT (if Domains v2 d = None \<or> force then AddDomainS e v2 d else ([], Inr v2))
      (\<lambda>v2'. addLoadDomains e force v2' ds)"

text \<open>
  The block \<open>if v, _ := c.storage.LoadOrStore(lg, NewLocale(c.library, lg)); v != nil\<close> of
  \<open>loadStorage\<close>: the default domain is added without any test, then the loop runs.
\<close>

definition loadLocale ::
  "'v TranslatorS env \<Rightarrow> (string \<Rightarrow> string) \<Rightarrow> bool \<Rightarrow> 'v configS \<Rightarrow> string
    \<Rightarrow> event list \<times> (panic + 'v configS)" where
  "loadLocale e simplified force c lg =
    bindT (AddDomainS e
             (case storage c lg of Some v \<Rightarrow> v | None \<Rightarrow> NewLocale simplified (library c) lg)
             (domain c))
      (\<lambda>v2. bindT (addLoadDomains e force v2 (loadDomains c))
        (\<lambda>v2'. ([], Inr (c\<lparr>storage := (storage c)(lg \<mapsto> v2')\<rparr>))))"

fun loadLanguagesLoop ::
  "'v TranslatorS env \<Rightarrow> (string \<Rightarrow> string) \<Rightarrow> bool \<Rightarrow> 'v configS \<Rightarrow> string list
    \<Rightarrow> event list \<times> (panic + 'v configS)" where
  "loadLanguagesLoop e simplified force c [] = ([], Inr c)"
| "loadLanguagesLoop e simplified force c (lg # lgs) =
    bindT (loadLocale e simplified force c lg)
      (\<lambda>c'. loadLanguagesLoop e simplified force c' lgs)"

definition loadStorage ::
  "'v TranslatorS env \<Rightarrow> (string \<Rightarrow> string) \<Rightarrow> 'v configS \<Rightarrow> bool
    \<Rightarrow> event list \<times> (panic + 'v configS)" where
  "loadStorage e simplified c force =
    bindT (loadLocale e simplified force c (language c))
      (\<lambda>c'. loadLanguagesLoop e simplified force c' (loadLanguages c'))"

text \<open>
  \<open>config.GetND\<close> (lines 728 to 753) and \<open>config.GetNDC\<close> (lines 775 to 797). The
  \<open>Range\<close> over the domains sets \<open>notIncluded\<close> to false exactly when the domain is a key.
  The call \<open>c.loadStorage(true)\<close> is made whether or not the domain was included. The
  Locale \<open>v2\<close> that answers is the one loaded from the storage at the start, in the state
  the calls have left it in. The result is the translation and the configuration.
\<close>

definition config_GetND ::
  "(string \<Rightarrow> 'v list \<Rightarrow> string) \<Rightarrow> 'v TranslatorS env \<Rightarrow> (string \<Rightarrow> string) \<Rightarrow> 'v configS
    \<Rightarrow> string \<Rightarrow> string \<Rightarrow> string \<Rightarrow> int \<Rightarrow> 'v list
    \<Rightarrow> event list \<times> (panic + string \<times> 'v configS)" where
  "config_GetND Pf e simplified c dm str plural n vars =
    (case storage c (language c) of
       None \<Rightarrow> ([], Inr ('''', c))
     | Some v2 \<Rightarrow>
         bindT (if Domains v2 dm = None then AddDomainS e v2 dm else ([], Inr v2))
           (\<lambda>v2'. bindT (loadStorage e simplified (c\<lparr>storage := (storage c)(language c \<mapsto> v2')\<rparr>) True)
             (\<lambda>c'. case GetND Pf (case storage c' (language c) of Some v \<Rightarrow> v | None \<Rightarrow> v2')
                          dm str plural n vars of
                      Inl p \<Rightarrow> ([], Inl p)
                    | Inr tr \<Rightarrow> ([], Inr (tr, c')))))"

definition config_GetNDC ::
  "(string \<Rightarrow> 'v list \<Rightarrow> string) \<Rightarrow> 'v TranslatorS env \<Rightarrow> (string \<Rightarrow> string) \<Rightarrow> 'v configS
    \<Rightarrow> string \<Rightarrow> string \<Rightarrow> string \<Rightarrow> int \<Rightarrow> string \<Rightarrow> 'v list
    \<Rightarrow> event list \<times> (panic + string \<times> 'v configS)" where
  "config_GetNDC Pf e simplified c dm str plural n ctx vars =
    (case storage c (language c) of
       None \<Rightarrow> ([], Inr ('''', c))
     | Some v2 \<Rightarrow>
         bindT (if Domains v2 dm = None then AddDomainS e v2 dm else ([], Inr v2))
           (\<lambda>v2'. bindT (loadStorage e simplified (c\<lparr>storage := (storage c)(language c \<mapsto> v2')\<rparr>) True)
             (\<lambda>c'. case GetNDC Pf (case storage c' (language c) of Some v \<Rightarrow> v | None \<Rightarrow> v2')
                          dm str plural n ctx vars of
                      Inl p \<Rightarrow> ([], Inl p)
                    | Inr tr \<Rightarrow> ([], Inr (tr, c')))))"

subsection \<open>The package-level configuration over a Go map (part_001, lines 76 to 234)\<close>

text \<open>
  This version of the configuration keeps its storage in a Go map, which may be nil. It is
  written against a version of \<open>Locale\<close> with a field \<open>domains\<close> that is not part of the
  sources at hand; what it uses of that type is a parameter: \<open>newLocale\<close> for
  \<open>NewLocale\<close>, \<open>hasDomain l d\<close> for the flag \<open>ok\<close> of \<open>l.domains[d]\<close>, \<open>addDomain\<close> for
  \<open>AddDomain\<close> with the events it leaves, and \<open>getND\<close> for \<open>GetND\<close>.
\<close>

type_synonym 'l configM = "(string \<rightharpoonup> 'l) option config"

record ('l, 'v) localeOps =
  newLocale :: "string \<Rightarrow> string \<Rightarrow> 'l"
  hasDomain :: "'l \<Rightarrow> string \<Rightarrow> bool"
  addDomain :: "'l \<Rightarrow> string \<Rightarrow> event list \<times> 'l"
  getND :: "'l \<Rightarrow> string \<Rightarrow> string \<Rightarrow> string \<Rightarrow> int \<Rightarrow> 'v list \<Rightarrow> string"

text \<open>
  The Locale stored for a language after the statement
  \<open>if c.storage[lg] == nil || force { c.storage[lg] = NewLocale(c.library, c.language) }\<close>
  (also inside the loop the new Locale is made for \<open>c.language\<close>).
\<close>

definition ensureLocale ::
  "('l, 'v) localeOps \<Rightarrow> bool \<Rightarrow> 'l configM \<Rightarrow> (string \<rightharpoonup> 'l) \<Rightarrow> string \<Rightarrow> 'l" where
  "ensureLocale ops force c st lg =
    (case st lg of
       None \<Rightarrow> newLocale ops (library c) (language c)
     | Some l \<Rightarrow> if force then newLocale ops (library c) (language c) else l)"

text \<open>The statement \<open>if _, ok := l.domains[d]; !ok || force { l.AddDomain(d) }\<close>.\<close>

definition addIfMissing ::
  "('l, 'v) localeOps \<Rightarrow> bool \<Rightarrow> 'l \<Rightarrow> string \<Rightarrow> event list \<times> 'l" where
  "addIfMissing ops force l d = (if hasDomain ops l d \<and> \<not> force then ([], l) else addDomain ops l d)"

fun addLoadDomainsM ::
  "('l, 'v) localeOps \<Rightarrow> bool \<Rightarrow> 'l \<Rightarrow> string list \<Rightarrow> event list \<times> 'l" where
  "addLoadDomainsM ops force l [] = ([], l)"
| "addLoadDomainsM ops force l (d # ds) =
    (let r = addIfMissing ops force l d in after (fst r) (addLoadDomainsM ops force (snd r) ds))"

fun loadLanguagesLoopM ::
  "('l, 'v) localeOps \<Rightarrow> bool \<Rightarrow> 'l configM \<Rightarrow> (string \<rightharpoonup> 'l) \<Rightarrow> string list
    \<Rightarrow> event list \<times> (string \<rightharpoonup> 'l)" where
  "loadLanguagesLoopM ops force c st [] = ([], st)"
| "loadLanguagesLoopM ops force c st (lg # lgs) =
    (let r = addLoadDomainsM ops force (ensureLocale ops force c st lg) (loadDomains c)
     in after (fst r) (loadLanguagesLoopM ops force c (st(lg \<mapsto> snd r)) lgs))"

definition loadStorageM ::
  "('l, 'v) localeOps \<Rightarrow> 'l configM \<Rightarrow> bool \<Rightarrow> event list \<times> 'l configM" where
  "loadStorageM ops c force =
    (let st = (case storage c of None \<Rightarrow> Map.empty | Some m \<Rightarrow> m);
         r = addIfMissing ops force (ensureLocale ops force c st (language c)) (domain c);
         r' = loadLanguagesLoopM ops force c (st(language c \<mapsto> snd r)) (loadLanguages c)
     in (fst r @ fst r', c\<lparr>storage := Some (snd r')\<rparr>))"

text \<open>
  \<open>config.GetND\<close> (lines 224 to 234): \<open>c.loadStorage(false)\<close>, then the lookup in the
  Locale stored for the current language.
\<close>

definition config_GetNDM ::
  "('l, 'v) localeOps \<Rightarrow> 'l configM \<Rightarrow> string \<Rightarrow> string \<Rightarrow> string \<Rightarrow> int \<Rightarrow> 'v list
    \<Rightarrow> event list \<times> (panic + string \<times> 'l configM)" where
  "config_GetNDM ops c dm str plural n vars =
    (let r = loadStorageM ops c False in
     (fst r,
      case storage (snd r) of
        None \<Rightarrow> Inl NilPointerDereference
      | Some st \<Rightarrow>
          (case st (language c) of
             None \<Rightarrow> Inl NilPointerDereference
           | Some l \<Rightarrow> Inr (getND ops l dm str plural n vars, snd r))))"

subsection \<open>MarshalBinary and UnmarshalBinary (part_000, lines 227 to 288)\<close>

record LocaleEncoding =
  Path :: string
  Lang :: string
  Domains_enc :: "string \<rightharpoonup> bytes"
  DefaultDomain :: string

text \<open>
  The package \<open>encoding/gob\<close> and the type \<open>TranslatorEncoding\<close> (the type variable
  \<open>'te\<close>) with its method \<open>GetTranslator\<close> are not part of the sources at hand. They are
  parameters: \<open>gobEncode obj\<close> is the content of the buffer and the error after
  \<open>encoder.Encode(obj)\<close>; \<open>gobDecode data\<close> is the error of \<open>decoder.Decode(obj)\<close> or the
  decoded \<open>LocaleEncoding\<close>; \<open>gobDecodeTr v\<close> likewise for a \<open>TranslatorEncoding\<close>.
\<close>

record ('v, 'te) gob =
  gobEncode :: "LocaleEncoding \<Rightarrow> bytes \<times> goerror option"
  gobDecode :: "bytes \<Rightarrow> goerror + LocaleEncoding"
  gobDecodeTr :: "bytes \<Rightarrow> goerror + 'te"
  GetTranslator :: "'te \<Rightarrow> 'v TranslatorS option"

text \<open>
  The callback given to \<open>l.Domains.Range\<close>, run over the keys in the order \<open>ks\<close> in which
  \<open>Range\<close> visits them (the order is not specified by \<open>sync.Map\<close>): the bytes returned by
  the translator are stored under the key; an error stops the iteration and is dropped.
\<close>

fun marshalRange ::
  "(string \<rightharpoonup> 'v TranslatorS option) \<Rightarrow> string list \<Rightarrow> (string \<rightharpoonup> bytes)
    \<Rightarrow> panic + (string \<rightharpoonup> bytes)" where
  "marshalRange D [] acc = Inr acc"
| "marshalRange D (k # ks) acc =
    (case D k of
       None \<Rightarrow> marshalRange D ks acc
     | Some v \<Rightarrow>
         (case v of
            None \<Rightarrow> Inl NilInterfaceConversion
          | Some t \<Rightarrow>
              (case snd (trs_MarshalBinary t) of
                 Some err \<Rightarrow> Inr (acc(k \<mapsto> fst (trs_MarshalBinary t)))
               | None \<Rightarrow> marshalRange D ks (acc(k \<mapsto> fst (trs_MarshalBinary t))))))"

text \<open>The \<open>LocaleEncoding\<close> that \<open>MarshalBinary\<close> builds, and \<open>MarshalBinary\<close>.\<close>

definition encodingOf :: "string list \<Rightarrow> 'v LocaleS \<Rightarrow> panic + LocaleEncoding" where
  "encodingOf ks l =
    (case marshalRange (Domains l) ks Map.empty of
       Inl p \<Rightarrow> Inl p
     | Inr ds \<Rightarrow>
         Inr \<lparr>Path = path l, Lang = lang l, Domains_enc = ds, DefaultDomain = defaultDomain l\<rparr>)"

definition MarshalBinary ::
  "('v, 'te) gob \<Rightarrow> string list \<Rightarrow> 'v LocaleS \<Rightarrow> panic + bytes \<times> goerror option" where
  "MarshalBinary G ks l =
    (case encodingOf ks l of Inl p \<Rightarrow> Inl p | Inr obj \<Rightarrow> Inr (gobEncode G obj))"

text \<open>
  The loop \<open>for k, v := range obj.Domains\<close> of \<open>UnmarshalBinary\<close>, over the keys in the
  order \<open>ks\<close> of the iteration; a decoding error returns at once, with the entries stored
  so far.
\<close>

fun decodeDomains ::
  "('v, 'te) gob \<Rightarrow> (string \<rightharpoonup> bytes) \<Rightarrow> string list \<Rightarrow> 'v LocaleS
    \<Rightarrow> goerror option \<times> 'v LocaleS" where
  "decodeDomains G E [] l = (None, l)"
| "decodeDomains G E (k # ks) l =
    (case E k of
       None \<Rightarrow> decodeDomains G E ks l
     | Some v \<Rightarrow>
         (case gobDecodeTr G v of
            Inl err \<Rightarrow> (Some err, l)
          | Inr tr \<Rightarrow> decodeDomains G E ks (l\<lparr>Domains := (Domains l)(k \<mapsto> GetTranslator G tr)\<rparr>)))"

text \<open>\<open>UnmarshalBinary\<close> on the receiver \<open>l\<close>: the error it returns and the receiver afterwards.\<close>

definition UnmarshalBinary ::
  "('v, 'te) gob \<Rightarrow> string list \<Rightarrow> 'v LocaleS \<Rightarrow> bytes \<Rightarrow> goerror option \<times> 'v LocaleS" where
  "UnmarshalBinary G ks l data =
    (case gobDecode G data of
       Inl err \<Rightarrow> (Some err, l)
     | Inr obj \<Rightarrow>
         decodeDomains G (Domains_enc obj) ks
           (l\<lparr>defaultDomain := DefaultDomain obj, lang := Lang obj, path := Path obj\<rparr>))"

text \<open>Two translators answer every query alike.\<close>

definition same_translations :: "'v TranslatorS \<Rightarrow> 'v TranslatorS \<Rightarrow> bool" where
  "same_translations a b = (trs_GetN a = trs_GetN b \<and> trs_GetNC a = trs_GetNC b)"

section \<open>Concrete instances for the examples\<close>

text \<open>
  \<open>path.Join\<close> on path elements that are non-empty and already clean: the elements
  separated by slashes.
\<close>

fun slashJoin :: "string list \<Rightarrow> string" where
  "slashJoin [] = ''''"
| "slashJoin [x] = x"
| "slashJoin (x # xs) = x @ ''/'' @ slashJoin xs"

text \<open>A translator that renders every message as the text \<open>s\<close>.\<close>

definition constTr :: "string \<Rightarrow> Translator" where
  "constTr s =
    \<lparr>tr_Get = (\<lambda>str. s), tr_GetN = (\<lambda>str plural n. s),
     tr_GetC = (\<lambda>str ctx. s), tr_GetNC = (\<lambda>str plural n ctx. s)\<rparr>"

definition constTrS :: "string \<Rightarrow> string TranslatorS" where
  "constTrS s =
    \<lparr>trs_GetN = (\<lambda>str plural n vars. s), trs_GetNC = (\<lambda>str plural n ctx vars. s),
     trs_MarshalBinary = (map (of_nat \<circ> of_char) s, None)\<rparr>"

text \<open>
  A disk that holds exactly the listed files; parsing the file \<open>f\<close> yields the translator
  that renders every message as \<open>f\<close>.
\<close>

definition diskEnv :: "string list \<Rightarrow> Translator env" where
  "diskEnv files =
    \<lparr>pathJoin = slashJoin, statOk = (\<lambda>f. f \<in> set files),
     parsePo = constTr, parseMo = constTr\<rparr>"

definition diskEnvS :: "string list \<Rightarrow> string TranslatorS env" where
  "diskEnvS files =
    \<lparr>pathJoin = slashJoin, statOk = (\<lambda>f. f \<in> set files),
     parsePo = constTrS, parseMo = constTrS\<rparr>"

text \<open>
  A codec for the examples: every \<open>LocaleEncoding\<close> is encoded as \<open>blob\<close>, which decodes
  to \<open>obj\<close>; the bytes of the translator that renders every message as \<open>s\<close> decode to
  that translator; other input is an error.
\<close>

definition stubGob :: "bytes \<Rightarrow> LocaleEncoding \<Rightarrow> string \<Rightarrow> (string, string) gob" where
  "stubGob blob obj s =
    \<lparr>gobEncode = (\<lambda>x. (blob, None)),
     gobDecode = (\<lambda>data. if data = blob then Inr obj else Inl ''gob: unknown input''),
     gobDecodeTr = (\<lambda>data. if data = fst (trs_MarshalBinary (constTrS s)) then Inr s
                            else Inl ''gob: unknown input''),
     GetTranslator = (\<lambda>te. Some (constTrS te))\<rparr>"

section \<open>Lookups in a domain that is not loaded\<close>

text \<open>
  C1. For a domain name that has no entry in the Locale's domain map, \<open>GetND\<close> and
  \<open>GetNDC\<close>, the singular forms \<open>GetD\<close> and \<open>GetDC\<close> and, when that name is the default
  domain, \<open>Get\<close>, \<open>GetN\<close>, \<open>GetC\<close> and \<open>GetNC\<close> return a string and do not panic: the
  caller's plural argument (for the singular forms the message itself) passed through
  \<open>Printf\<close>. In the Go-map Locale, \<open>DNGettext\<close>, \<open>DNPGettext\<close>, \<open>DGettext\<close> and
  \<open>DPGettext\<close>, and the default-domain forms, return that argument itself.
\<close>

theorem C1_lookup_without_entry:
  assumes "Domains l dm = None" and "entryG g dg = None"
  shows "GetND Pf l dm str plural n vars = Inr (Pf plural vars)
       \<and> GetNDC Pf l dm str plural n ctx vars = Inr (Pf plural vars)
       \<and> GetD Pf l dm str vars = Inr (Pf str vars)
       \<and> GetDC Pf l dm str ctx vars = Inr (Pf str vars)
       \<and> (dm = GetDomain l \<longrightarrow>
            Get Pf l str vars = Inr (Pf str vars)
          \<and> GetN Pf l str plural n vars = Inr (Pf plural vars)
          \<and> GetC Pf l str ctx vars = Inr (Pf str vars)
          \<and> GetNC Pf l str plural n ctx vars = Inr (Pf plural vars))
       \<and> DNGettext g dg str plural n = plural
       \<and> DNPGettext g dg ctx str plural n = plural
       \<and> DGettext g dg str = str
       \<and> DPGettext g dg ctx str = str
       \<and> (dg = defaultDomain g \<longrightarrow>
            Gettext g str = str
          \<and> NGettext g str plural n = plural
          \<and> PGettext g ctx str = str
          \<and> NPGettext g ctx str plural n = plural)"
proof -
  have s: "GetND Pf l dm str plural n vars = Inr (Pf plural vars)"
      "GetNDC Pf l dm str plural n ctx vars = Inr (Pf plural vars)"
      "GetND Pf l dm str str 1 vars = Inr (Pf str vars)"
      "GetNDC Pf l dm str str 1 ctx vars = Inr (Pf str vars)"
    using assms(1) by (simp_all add: GetND_def GetNDC_def)
  have g: "DNGettext g dg str plural n = plural"
      "DNPGettext g dg ctx str plural n = plural"
      "DNGettext g dg str str 1 = str"
      "DNPGettext g dg ctx str str 1 = str"
    using assms(2)
    by (simp_all add: entryG_def DNGettext_def DNPGettext_def split: option.splits)
  show ?thesis
    using s g
    by (auto simp add: GetD_def GetDC_def Get_def GetN_def GetC_def GetNC_def
        DGettext_def DPGettext_def Gettext_def NGettext_def PGettext_def NPGettext_def)
qed

theorem C1_lookup_without_entry_witness:
  "Domains \<lparr>path = ''/p'', lang = ''en_US'', Domains = Map.empty, defaultDomain = ''app''\<rparr> ''app''
     = None
   \<and> entryG \<lparr>path = ''/p'', lang = ''en_US'', Domains = None, defaultDomain = ''app''\<rparr> ''app''
     = None
   \<and> ''app'' = GetDomain \<lparr>path = ''/p'', lang = ''en_US'', Domains = Map.empty, defaultDomain = ''app''\<rparr>
   \<and> GetND (printf (\<lambda>s vs. s @ concat vs))
       \<lparr>path = ''/p'', lang = ''en_US'', Domains = Map.empty, defaultDomain = ''app''\<rparr>
       ''app'' ''%s apple'' ''%s apples'' 3 [''3''] = Inr ''%s apples3''
   \<and> GetDC (printf (\<lambda>s vs. s @ concat vs))
       \<lparr>path = ''/p'', lang = ''en_US'', Domains = Map.empty, defaultDomain = ''app''\<rparr>
       ''app'' ''apple'' ''menu'' ([]::string list) = Inr ''apple''
   \<and> GetN (printf (\<lambda>s vs. s @ concat vs))
       \<lparr>path = ''/p'', lang = ''en_US'', Domains = Map.empty, defaultDomain = ''app''\<rparr>
       ''apple'' ''apples'' 3 ([]::string list) = Inr ''apples''
   \<and> DNPGettext \<lparr>path = ''/p'', lang = ''en_US'', Domains = None, defaultDomain = ''app''\<rparr>
       ''app'' ''menu'' ''apple'' ''apples'' 3 = ''apples''
   \<and> DGettext \<lparr>path = ''/p'', lang = ''en_US'', Domains = None, defaultDomain = ''app''\<rparr>
       ''app'' ''apple'' = ''apple''
   \<and> NGettext \<lparr>path = ''/p'', lang = ''en_US'', Domains = None, defaultDomain = ''app''\<rparr>
       ''apple'' ''apples'' 3 = ''apples''"
  using C1_lookup_without_entry
    [of "\<lparr>path = ''/p'', lang = ''en_US'', Domains = Map.empty, defaultDomain = ''app''\<rparr>" "''app''"
        "\<lparr>path = ''/p'', lang = ''en_US'', Domains = None, defaultDomain = ''app''\<rparr>" "''app''"
        "printf (\<lambda>s vs. s @ concat vs)" "''%s apple''" "''%s apples''" 3 "[''3'']" "''menu''"]
    C1_lookup_without_entry
    [of "\<lparr>path = ''/p'', lang = ''en_US'', Domains = Map.empty, defaultDomain = ''app''\<rparr>" "''app''"
        "\<lparr>path = ''/p'', lang = ''en_US'', Domains = None, defaultDomain = ''app''\<rparr>" "''app''"
        "printf (\<lambda>s vs. s @ concat vs)" "''apple''" "''apples''" 3 "[]::string list" "''menu''"]
  by (simp add: entryG_def printf_def GetDomain_def)

text \<open>
  C2 as stated: with no catalog for the domain, the plural lookup returns the message for
  \<open>n = 1\<close>. It does not: \<open>DNGettext\<close> and \<open>GetND\<close> return the plural argument for
  \<open>n = 1\<close> as well.
\<close>

theorem C2_singular_count_counterexample:
  "entryG \<lparr>path = ''/p'', lang = ''en_US'', Domains = None, defaultDomain = ''''\<rparr> ''app'' = None
   \<and> DNGettext \<lparr>path = ''/p'', lang = ''en_US'', Domains = None, defaultDomain = ''''\<rparr>
        ''app'' ''apple'' ''apples'' 1 = ''apples''
   \<and> DNGettext \<lparr>path = ''/p'', lang = ''en_US'', Domains = None, defaultDomain = ''''\<rparr>
        ''app'' ''apple'' ''apples'' 1 \<noteq> ''apple''
   \<and> Domains \<lparr>path = ''/p'', lang = ''en_US'', Domains = Map.empty, defaultDomain = ''''\<rparr> ''app''
        = None
   \<and> GetND (printf (\<lambda>s vs. s @ concat vs))
        \<lparr>path = ''/p'', lang = ''en_US'', Domains = Map.empty, defaultDomain = ''''\<rparr>
        ''app'' ''apple'' ''apples'' 1 ([]::string list) \<noteq> Inr ''apple''"
  by (simp add: entryG_def DNGettext_def GetND_def printf_def)

text \<open>
  C2, amended. With no entry for the domain, the plural lookup returns the plural argument
  (passed through \<open>Printf\<close> in the sync.Map Locale) for every count \<open>n\<close>, the count 1
  included: the result depends neither on \<open>n\<close> nor on the message, and for \<open>n = 1\<close> it
  is the message only where the caller passed the message as the plural argument.
\<close>

theorem C2_plural_argument_for_every_count:
  assumes "Domains l dm = None" and "entryG g dg = None"
  shows "GetND Pf l dm str plural n vars = Inr (Pf plural vars)
       \<and> GetND Pf l dm str plural n vars = GetND Pf l dm str' plural 1 vars
       \<and> (dm = GetDomain l \<longrightarrow> GetN Pf l str plural n vars = Inr (Pf plural vars))
       \<and> DNGettext g dg str plural n = plural
       \<and> (DNGettext g dg str plural 1 = str) = (plural = str)
       \<and> (dg = defaultDomain g \<longrightarrow> NGettext g str plural n = plural)"
proof -
  have s: "\<And>m k. GetND Pf l dm m plural k vars = Inr (Pf plural vars)"
    using assms(1) by (simp add: GetND_def)
  have g: "\<And>k. DNGettext g dg str plural k = plural"
    using assms(2) by (simp add: entryG_def DNGettext_def split: option.splits)
  show ?thesis
    using s g by (auto simp add: GetN_def NGettext_def)
qed

theorem C2_plural_argument_for_every_count_witness:
  "Domains \<lparr>path = ''/p'', lang = ''en_US'', Domains = Map.empty, defaultDomain = ''app''\<rparr> ''app''
     = None
   \<and> entryG \<lparr>path = ''/p'', lang = ''en_US'', Domains = Some Map.empty, defaultDomain = ''app''\<rparr>
       ''app'' = None
   \<and> ''app'' = GetDomain \<lparr>path = ''/p'', lang = ''en_US'', Domains = Map.empty, defaultDomain = ''app''\<rparr>
   \<and> GetND (printf (\<lambda>s vs. s @ concat vs))
       \<lparr>path = ''/p'', lang = ''en_US'', Domains = Map.empty, defaultDomain = ''app''\<rparr>
       ''app'' ''apple'' ''apples'' 1 ([]::string list) = Inr ''apples''
   \<and> GetN (printf (\<lambda>s vs. s @ concat vs))
       \<lparr>path = ''/p'', lang = ''en_US'', Domains = Map.empty, defaultDomain = ''app''\<rparr>
       ''apple'' ''apples'' 1 ([]::string list) = Inr ''apples''
   \<and> DNGettext \<lparr>path = ''/p'', lang = ''en_US'', Domains = Some Map.empty, defaultDomain = ''app''\<rparr>
       ''app'' ''apple'' ''apples'' 1 = ''apples''
   \<and> NGettext \<lparr>path = ''/p'', lang = ''en_US'', Domains = Some Map.empty, defaultDomain = ''app''\<rparr>
       ''apple'' ''apples'' 1 = ''apples''"
  using C2_plural_argument_for_every_count
    [of "\<lparr>path = ''/p'', lang = ''en_US'', Domains = Map.empty, defaultDomain = ''app''\<rparr>" "''app''"
        "\<lparr>path = ''/p'', lang = ''en_US'', Domains = Some Map.empty, defaultDomain = ''app''\<rparr>"
        "''app''" "printf (\<lambda>s vs. s @ concat vs)" "''apple''" "''apples''" 1 "[]::string list"]
  by (simp add: entryG_def printf_def GetDomain_def)

section \<open>Formatting\<close>

text \<open>
  C10. With an empty argument list \<open>printf\<close> returns the template unchanged, whatever verbs
  it holds, without calling \<open>fmt.Sprintf\<close>; with a non-empty list it returns exactly
  \<open>fmt.Sprintf(str, vars...)\<close>.
\<close>

theorem C10_printf:
  "printf Sprintf str [] = str
   \<and> (vars \<noteq> [] \<longrightarrow> printf Sprintf str vars = Sprintf str vars)"
  by (simp add: printf_def)

theorem C10_printf_witness:
  "printf (\<lambda>s vs. s @ '' with '' @ concat vs) ''%d items'' ([]::string list) = ''%d items''
   \<and> [''3''] \<noteq> ([]::string list)
   \<and> printf (\<lambda>s vs. s @ '' with '' @ concat vs) ''%d items'' [''3''] = ''%d items with 3''"
  using C10_printf [of "\<lambda>s vs. s @ '' with '' @ concat vs" "''%d items''" "[''3'']"]
  by simp

section \<open>File resolution of AddDomain\<close>

subsection \<open>A chain of probes is a search through a list\<close>

lemma try_all_trace:
  "fst (foldr (try_stat e) cs ([], '''')) = map Stat (probe_until (statOk e) cs)"
  by (induction cs) (simp_all add: try_stat_def)

lemma try_all_result:
  "snd (foldr (try_stat e) cs ([], '''')) = (case find (statOk e) cs of None \<Rightarrow> '''' | Some f \<Rightarrow> f)"
  by (induction cs) (simp_all add: try_stat_def)

lemma findExtG_fold:
  "findExtG e l dm ext = foldr (try_stat e) (guarded_for_ext e (path l) (lang l) dm ext) ([], '''')"
  by (simp add: findExtG_def guarded_for_ext_def claimed_for_ext_def try_stat_if_def)

lemma found_nonempty:
  "\<not> ok '''' \<Longrightarrow> ((case find ok cs of None \<Rightarrow> '''' | Some f \<Rightarrow> f) = '''') = (find ok cs = None)"
  by (auto split: option.splits dest: find_Some_iff[THEN iffD1])

lemma probe_until_append:
  "probe_until ok (xs @ ys) = (if find ok xs = None then xs @ probe_until ok ys else probe_until ok xs)"
  by (induction xs) simp_all

lemma probes_Stat [simp]: "probes (map Stat fs @ t) = fs @ probes t"
  by (induction fs) simp_all

lemma parsed_Stat [simp]: "parsed (map Stat fs @ t) = parsed t"
  by (induction fs) simp_all

lemma find_map_Pair:
  "find (\<lambda>c. ok (snd c)) (map (Pair x) fs) = map_option (Pair x) (find ok fs)"
  by (induction fs) simp_all

lemma probes_Stat0 [simp]: "probes (map Stat fs) = fs"
  by (induction fs) simp_all

lemma parsed_Stat0 [simp]: "parsed (map Stat fs) = []"
  by (induction fs) simp_all

lemma probe_until_none: "find ok cs = None \<Longrightarrow> probe_until ok cs = cs"
  by (induction cs) (simp_all split: if_splits)

lemma find_app:
  "find P (xs @ ys) = (case find P xs of None \<Rightarrow> find P ys | Some x \<Rightarrow> Some x)"
  by (induction xs) simp_all

text \<open>
  C3, amended. In the Go-map Locale, \<open>AddDomain\<close> probes, in this order,
  \<open>P/lang/LC_MESSAGES/dom.mo\<close>, \<open>P/lang[:2]/LC_MESSAGES/dom.mo\<close>, \<open>P/lang/dom.mo\<close>,
  \<open>P/lang[:2]/dom.mo\<close> and then the same four names with the extension \<open>.po\<close>, leaving
  out the names under \<open>lang[:2]\<close> when the tag has at most two bytes; it stops at the
  first name that exists, parses that file with the parser of its extension and stores the
  result. (\<open>os.Stat\<close> fails on the empty name.) The sync.Map Locale probes
  \<open>P/lang/LC_MESSAGES/dom.po\<close> first and loads it when it exists, whatever \<open>.mo\<close>
  files there are.
\<close>

theorem C3_search_order:
  assumes "\<not> statOk e ''''" and "\<not> statOk e' ''''"
  shows "probes (fst (AddDomainG e l dm))
           = probe_until (statOk e) (map snd (guarded_candidates e (path l) (lang l) dm))
       \<and> parsed (fst (AddDomainG e l dm))
           = (case find (\<lambda>c. statOk e (snd c)) (guarded_candidates e (path l) (lang l) dm) of
                None \<Rightarrow> [] | Some c \<Rightarrow> [c])
       \<and> snd (AddDomainG e l dm)
           = (case find (\<lambda>c. statOk e (snd c)) (guarded_candidates e (path l) (lang l) dm) of
                None \<Rightarrow> l | Some c \<Rightarrow> snd (saveG l dm (parser_for e (fst c) (snd c))))
       \<and> (length (lang l) > 2 \<longrightarrow>
            guarded_candidates e (path l) (lang l) dm = claimed_candidates e (path l) (lang l) dm)
       \<and> (statOk e' (pathJoin e' [path s, lang s, ''LC_MESSAGES'', dm @ ''.po'']) \<longrightarrow>
            fst (AddDomainS e' s dm)
              = [Stat (pathJoin e' [path s, lang s, ''LC_MESSAGES'', dm @ ''.po'']),
                 ParseFile ''po'' (pathJoin e' [path s, lang s, ''LC_MESSAGES'', dm @ ''.po'']),
                 Lock, Unlock, Store dm])"
proof -
  define cm where "cm = guarded_for_ext e (path l) (lang l) dm ''mo''"
  define cp where "cp = guarded_for_ext e (path l) (lang l) dm ''po''"
  have gc: "guarded_candidates e (path l) (lang l) dm = map (Pair ''mo'') cm @ map (Pair ''po'') cp"
    by (simp add: guarded_candidates_def cm_def cp_def)
  have m: "findExtG e l dm ''mo'' = (map Stat (probe_until (statOk e) cm),
             case find (statOk e) cm of None \<Rightarrow> '''' | Some f \<Rightarrow> f)"
    by (simp add: prod_eq_iff findExtG_fold try_all_trace try_all_result cm_def)
  have p: "findExtG e l dm ''po'' = (map Stat (probe_until (statOk e) cp),
             case find (statOk e) cp of None \<Rightarrow> '''' | Some f \<Rightarrow> f)"
    by (simp add: prod_eq_iff findExtG_fold try_all_trace try_all_result cp_def)
  have ne: "\<And>cs f. find (statOk e) cs = Some f \<Longrightarrow> f \<noteq> ''''"
    using assms(1) by (auto simp add: find_Some_iff)
  have last: "length (lang l) > 2 \<longrightarrow>
      guarded_candidates e (path l) (lang l) dm = claimed_candidates e (path l) (lang l) dm"
    by (simp add: guarded_candidates_def claimed_candidates_def guarded_for_ext_def)
  have G: "probes (fst (AddDomainG e l dm))
           = probe_until (statOk e) (map snd (guarded_candidates e (path l) (lang l) dm))
       \<and> parsed (fst (AddDomainG e l dm))
           = (case find (\<lambda>c. statOk e (snd c)) (guarded_candidates e (path l) (lang l) dm) of
                None \<Rightarrow> [] | Some c \<Rightarrow> [c])
       \<and> snd (AddDomainG e l dm)
           = (case find (\<lambda>c. statOk e (snd c)) (guarded_candidates e (path l) (lang l) dm) of
                None \<Rightarrow> l | Some c \<Rightarrow> snd (saveG l dm (parser_for e (fst c) (snd c))))"
  proof (cases "find (statOk e) cm")
    case (Some f)
    then show ?thesis
      using ne [OF Some]
      by (simp add: AddDomainG_def m gc find_map_Pair find_app probe_until_append
          probe_until_none after_def saveG_def parser_for_def Let_def comp_def)
  next
    case None
    note mo_none = None
    show ?thesis
    proof (cases "find (statOk e) cp")
      case None
      then show ?thesis
        using mo_none
        by (simp add: AddDomainG_def m p gc find_map_Pair find_app probe_until_append
            probe_until_none after_def Let_def comp_def)
    next
      case (Some f)
      then show ?thesis
        using mo_none ne [OF Some]
        by (simp add: AddDomainG_def m p gc find_map_Pair find_app probe_until_append
            probe_until_none after_def saveG_def parser_for_def Let_def comp_def)
    qed
  qed
  have S: "statOk e' (pathJoin e' [path s, lang s, ''LC_MESSAGES'', dm @ ''.po'']) \<longrightarrow>
            fst (AddDomainS e' s dm)
              = [Stat (pathJoin e' [path s, lang s, ''LC_MESSAGES'', dm @ ''.po'']),
                 ParseFile ''po'' (pathJoin e' [path s, lang s, ''LC_MESSAGES'', dm @ ''.po'']),
                 Lock, Unlock, Store dm]"
    using assms(2)
    by (auto simp add: AddDomainS_def findExtS_def try_stat_def Let_def after_def nextAddDomain_def)
  show ?thesis
    using G last S by simp
qed

theorem C3_search_order_witness:
  "\<not> statOk (diskEnv [''/p/fr/LC_MESSAGES/app.mo'', ''/p/fr_CA/app.po'']) ''''
   \<and> \<not> statOk (diskEnvS [''/p/fr_CA/LC_MESSAGES/app.mo'', ''/p/fr_CA/LC_MESSAGES/app.po'']) ''''
   \<and> 2 < length ''fr_CA''
   \<and> probes (fst (AddDomainG (diskEnv [''/p/fr/LC_MESSAGES/app.mo'', ''/p/fr_CA/app.po''])
        \<lparr>path = ''/p'', lang = ''fr_CA'', Domains = None, defaultDomain = ''''\<rparr> ''app''))
      = [''/p/fr_CA/LC_MESSAGES/app.mo'', ''/p/fr/LC_MESSAGES/app.mo'']
   \<and> parsed (fst (AddDomainG (diskEnv [''/p/fr/LC_MESSAGES/app.mo'', ''/p/fr_CA/app.po''])
        \<lparr>path = ''/p'', lang = ''fr_CA'', Domains = None, defaultDomain = ''''\<rparr> ''app''))
      = [(''mo'', ''/p/fr/LC_MESSAGES/app.mo'')]
   \<and> defaultDomain (snd (AddDomainG (diskEnv [''/p/fr/LC_MESSAGES/app.mo'', ''/p/fr_CA/app.po''])
        \<lparr>path = ''/p'', lang = ''fr_CA'', Domains = None, defaultDomain = ''''\<rparr> ''app''))
      = ''app''
   \<and> statOk (diskEnvS [''/p/fr_CA/LC_MESSAGES/app.mo'', ''/p/fr_CA/LC_MESSAGES/app.po''])
        ''/p/fr_CA/LC_MESSAGES/app.po''
   \<and> fst (AddDomainS (diskEnvS [''/p/fr_CA/LC_MESSAGES/app.mo'', ''/p/fr_CA/LC_MESSAGES/app.po''])
        \<lparr>path = ''/p'', lang = ''fr_CA'', Domains = Map.empty, defaultDomain = ''''\<rparr> ''app'')
      = [Stat ''/p/fr_CA/LC_MESSAGES/app.po'', ParseFile ''po'' ''/p/fr_CA/LC_MESSAGES/app.po'',
         Lock, Unlock, Store ''app'']"
  using C3_search_order
    [of "diskEnv [''/p/fr/LC_MESSAGES/app.mo'', ''/p/fr_CA/app.po'']"
        "diskEnvS [''/p/fr_CA/LC_MESSAGES/app.mo'', ''/p/fr_CA/LC_MESSAGES/app.po'']"
        "\<lparr>path = ''/p'', lang = ''fr_CA'', Domains = None, defaultDomain = ''''\<rparr>" "''app''"
        "\<lparr>path = ''/p'', lang = ''fr_CA'', Domains = Map.empty, defaultDomain = ''''\<rparr>"]
  by (simp add: diskEnv_def diskEnvS_def guarded_candidates_def guarded_for_ext_def
      claimed_for_ext_def saveG_def)

text \<open>
  C3 as stated fails on the sync.Map Locale: with both \<open>/p/en_US/LC_MESSAGES/app.mo\<close> and
  \<open>/p/en_US/LC_MESSAGES/app.po\<close> on disk, the first candidate of the claimed order is the
  \<open>.mo\<close> file, but \<open>AddDomain\<close> probes the \<open>.po\<close> file first and loads it.
\<close>

theorem C3_po_before_mo_counterexample:
  "find (\<lambda>c. statOk (diskEnvS [''/p/en_US/LC_MESSAGES/app.mo'', ''/p/en_US/LC_MESSAGES/app.po'']) (snd c))
     (claimed_candidates (diskEnvS [''/p/en_US/LC_MESSAGES/app.mo'', ''/p/en_US/LC_MESSAGES/app.po''])
        ''/p'' ''en_US'' ''app'')
     = Some (''mo'', ''/p/en_US/LC_MESSAGES/app.mo'')
   \<and> fst (AddDomainS (diskEnvS [''/p/en_US/LC_MESSAGES/app.mo'', ''/p/en_US/LC_MESSAGES/app.po''])
        \<lparr>path = ''/p'', lang = ''en_US'', Domains = Map.empty, defaultDomain = ''''\<rparr> ''app'')
     = [Stat ''/p/en_US/LC_MESSAGES/app.po'', ParseFile ''po'' ''/p/en_US/LC_MESSAGES/app.po'',
        Lock, Unlock, Store ''app'']
   \<and> probes (fst (AddDomainS (diskEnvS [''/p/en_US/LC_MESSAGES/app.mo'', ''/p/en_US/LC_MESSAGES/app.po''])
        \<lparr>path = ''/p'', lang = ''en_US'', Domains = Map.empty, defaultDomain = ''''\<rparr> ''app''))
     \<noteq> probe_until (statOk (diskEnvS [''/p/en_US/LC_MESSAGES/app.mo'', ''/p/en_US/LC_MESSAGES/app.po'']))
         (map snd (claimed_candidates
            (diskEnvS [''/p/en_US/LC_MESSAGES/app.mo'', ''/p/en_US/LC_MESSAGES/app.po''])
            ''/p'' ''en_US'' ''app''))
   \<and> parsed (fst (AddDomainS (diskEnvS [''/p/en_US/LC_MESSAGES/app.mo'', ''/p/en_US/LC_MESSAGES/app.po''])
        \<lparr>path = ''/p'', lang = ''en_US'', Domains = Map.empty, defaultDomain = ''''\<rparr> ''app''))
     \<noteq> [(''mo'', ''/p/en_US/LC_MESSAGES/app.mo'')]"
  by (simp add: diskEnvS_def claimed_candidates_def claimed_for_ext_def
      AddDomainS_def findExtS_def try_stat_def after_def nextAddDomain_def)

text \<open>
  C4. A Locale whose language tag has at most two bytes must not have its tag sliced, and
  \<open>AddDomain\<close> must not panic on it. The Go-map Locale guards the slice with
  \<open>len(l.lang) > 2\<close> (see \<open>guarded_for_ext\<close> in the theorem on the search order); the
  sync.Map Locale does not: for the tag \<open>C\<close> and no file on disk, \<open>AddDomain\<close> evaluates
  \<open>l.lang[:2]\<close> after four failed probes and panics.
\<close>

theorem C4_short_tag_panics:
  "AddDomainS (diskEnvS [])
     \<lparr>path = ''/p'', lang = ''C'', Domains = Map.empty, defaultDomain = ''''\<rparr> ''app''
   = ([Stat ''/p/C/LC_MESSAGES/app.po'', Stat ''/p/C/app.po'',
       Stat ''/p/C/LC_MESSAGES/app.mo'', Stat ''/p/C/app.mo''],
      Inl SliceBoundsOutOfRange)"
  by (simp add: diskEnvS_def AddDomainS_def findExtS_def try_stat_def)

section \<open>What AddDomain does, in program order\<close>

lemma findExtS_fold:
  "findExtS e l dm ext lg =
     foldr (try_stat e)
       [pathJoin e [path l, lg, ''LC_MESSAGES'', dm @ ''.'' @ ext], pathJoin e [path l, lang l, dm @ ''.'' @ ext]]
       ([], '''')"
  by (simp add: findExtS_def)

lemma findExtG_trace: "fst (findExtG e l dm ext) = map Stat (probes (fst (findExtG e l dm ext)))"
  by (simp add: findExtG_fold try_all_trace)

lemma findExtS_trace: "fst (findExtS e l dm ext lg) = map Stat (probes (fst (findExtS e l dm ext lg)))"
  by (simp only: findExtS_fold try_all_trace probes_Stat0)

lemma AddDomainG_shape:
  "\<exists>fs. AddDomainG e l dm = (map Stat fs, l)
      \<or> (\<exists>x f. AddDomainG e l dm
            = (map Stat fs @ [ParseFile x f, Lock, Store dm, Unlock], snd (saveG l dm (parser_for e x f))))"
proof -
  obtain a where a: "fst (findExtG e l dm ''mo'') = map Stat a" using findExtG_trace by blast
  obtain b where b: "fst (findExtG e l dm ''po'') = map Stat b" using findExtG_trace by blast
  show ?thesis
  proof (cases "snd (findExtG e l dm ''mo'') \<noteq> ''''")
    case True
    then have "AddDomainG e l dm = (map Stat a @ [ParseFile ''mo'' (snd (findExtG e l dm ''mo'')), Lock, Store dm, Unlock],
        snd (saveG l dm (parser_for e ''mo'' (snd (findExtG e l dm ''mo'')))))"
      by (simp add: AddDomainG_def Let_def after_def a saveG_def parser_for_def)
    then show ?thesis by blast
  next
    case False
    note mo = False
    show ?thesis
    proof (cases "snd (findExtG e l dm ''po'') \<noteq> ''''")
      case True
      then have "AddDomainG e l dm = (map Stat (a @ b) @ [ParseFile ''po'' (snd (findExtG e l dm ''po'')), Lock, Store dm, Unlock],
          snd (saveG l dm (parser_for e ''po'' (snd (findExtG e l dm ''po'')))))"
        using mo by (simp add: AddDomainG_def Let_def after_def a b saveG_def parser_for_def)
      then show ?thesis by blast
    next
      case False
      then have "AddDomainG e l dm = (map Stat (a @ b), l)"
        using mo by (simp add: AddDomainG_def Let_def a b)
      then show ?thesis by blast
    qed
  qed
qed

lemma AddDomainS_shape:
  "\<exists>fs. AddDomainS e l dm = (map Stat fs, Inr l)
      \<or> (AddDomainS e l dm = (map Stat fs, Inl SliceBoundsOutOfRange) \<and> length (lang l) < 2)
      \<or> (\<exists>x f. AddDomainS e l dm
            = (map Stat fs @ [ParseFile x f, Lock, Unlock, Store dm],
               snd (nextAddDomain l dm (parser_for e x f))))"
proof -
  obtain a where a: "fst (findExtS e l dm ''po'' (lang l)) = map Stat a" using findExtS_trace by blast
  obtain b where b: "fst (findExtS e l dm ''mo'' (lang l)) = map Stat b" using findExtS_trace by blast
  obtain c where c: "fst (findExtS e l dm ''po'' (take 2 (lang l))) = map Stat c" using findExtS_trace by blast
  obtain d where d: "fst (findExtS e l dm ''mo'' (take 2 (lang l))) = map Stat d" using findExtS_trace by blast
  let ?r1 = "snd (findExtS e l dm ''po'' (lang l))"
  let ?r2 = "snd (findExtS e l dm ''mo'' (lang l))"
  let ?r3 = "snd (findExtS e l dm ''po'' (take 2 (lang l)))"
  let ?r4 = "snd (findExtS e l dm ''mo'' (take 2 (lang l)))"
  consider (p1) "?r1 \<noteq> ''''"
    | (p2) "?r1 = ''''" "?r2 \<noteq> ''''"
    | (short) "?r1 = ''''" "?r2 = ''''" "length (lang l) < 2"
    | (p3) "?r1 = ''''" "?r2 = ''''" "\<not> length (lang l) < 2" "?r3 \<noteq> ''''"
    | (p4) "?r1 = ''''" "?r2 = ''''" "\<not> length (lang l) < 2" "?r3 = ''''" "?r4 \<noteq> ''''"
    | (none) "?r1 = ''''" "?r2 = ''''" "\<not> length (lang l) < 2" "?r3 = ''''" "?r4 = ''''"
    by blast
  then show ?thesis
  proof cases
    case p1
    then have "AddDomainS e l dm = (map Stat a @ [ParseFile ''po'' ?r1, Lock, Unlock, Store dm],
        snd (nextAddDomain l dm (parser_for e ''po'' ?r1)))"
      by (simp add: AddDomainS_def Let_def after_def a nextAddDomain_def parser_for_def)
    then show ?thesis by blast
  next
    case p2
    then have "AddDomainS e l dm = (map Stat (a @ b) @ [ParseFile ''mo'' ?r2, Lock, Unlock, Store dm],
        snd (nextAddDomain l dm (parser_for e ''mo'' ?r2)))"
      by (simp add: AddDomainS_def Let_def after_def a b nextAddDomain_def parser_for_def)
    then show ?thesis by blast
  next
    case short
    then have "AddDomainS e l dm = (map Stat (a @ b), Inl SliceBoundsOutOfRange)"
      by (simp add: AddDomainS_def Let_def a b)
    with short show ?thesis by blast
  next
    case p3
    then have "AddDomainS e l dm = (map Stat (a @ b @ c) @ [ParseFile ''po'' ?r3, Lock, Unlock, Store dm],
        snd (nextAddDomain l dm (parser_for e ''po'' ?r3)))"
      by (simp add: AddDomainS_def Let_def after_def a b c nextAddDomain_def parser_for_def)
    then show ?thesis by blast
  next
    case p4
    then have "AddDomainS e l dm = (map Stat (a @ b @ c @ d) @ [ParseFile ''mo'' ?r4, Lock, Unlock, Store dm],
        snd (nextAddDomain l dm (parser_for e ''mo'' ?r4)))"
      by (simp add: AddDomainS_def Let_def after_def a b c d nextAddDomain_def parser_for_def)
    then show ?thesis by blast
  next
    case none
    then have "AddDomainS e l dm = (map Stat (a @ b @ c @ d), Inr l)"
      by (simp add: AddDomainS_def Let_def a b c d)
    then show ?thesis by blast
  qed
qed

lemma parse_under_lock_Stat [simp]:
  "parse_under_lock held (map Stat fs @ t) = parse_under_lock held t"
  by (induction fs) simp_all

lemma parse_under_lock_Stat0 [simp]: "parse_under_lock held (map Stat fs)"
  by (induction fs) simp_all

text \<open>
  C6, amended. In both Locales a call of \<open>AddDomain\<close> first probes for files and then
  parses at most one file; when it has parsed one, it takes the Locale's exclusive lock and
  releases it again, in this order: the file is parsed before the lock is taken, never
  while it is held. The store of the domain's entry happens between \<open>Lock\<close> and
  \<open>Unlock\<close> in the Go-map Locale and after \<open>Unlock\<close> in the sync.Map Locale. A call that has parsed a file returns the Locale in
  which the domain maps to the catalog parsed from that file and in which the default
  domain is the domain if it was empty before, everything else as it was; a call that has
  parsed nothing returns the Locale as it was (or, in the sync.Map Locale, panics on the
  slice of the tag).
\<close>

theorem C6_parse_precedes_the_lock:
  "fst (AddDomainG e g dm)
     = map Stat (probes (fst (AddDomainG e g dm)))
       @ (case parsed (fst (AddDomainG e g dm)) of
            [] \<Rightarrow> []
          | c # cs \<Rightarrow> [ParseFile (fst c) (snd c), Lock, Store dm, Unlock])
   \<and> fst (AddDomainS e' l dm)
     = map Stat (probes (fst (AddDomainS e' l dm)))
       @ (case parsed (fst (AddDomainS e' l dm)) of
            [] \<Rightarrow> []
          | c # cs \<Rightarrow> [ParseFile (fst c) (snd c), Lock, Unlock, Store dm])
   \<and> parse_under_lock False (fst (AddDomainG e g dm)) = (parsed (fst (AddDomainG e g dm)) = [])
   \<and> parse_under_lock False (fst (AddDomainS e' l dm)) = (parsed (fst (AddDomainS e' l dm)) = [])
   \<and> snd (AddDomainG e g dm)
     = (case parsed (fst (AddDomainG e g dm)) of
          [] \<Rightarrow> g
        | c # cs \<Rightarrow>
            g\<lparr>defaultDomain := (if defaultDomain g = '''' then dm else defaultDomain g),
              Domains := Some ((case Domains g of None \<Rightarrow> Map.empty | Some m \<Rightarrow> m)
                                 (dm \<mapsto> Some (parser_for e (fst c) (snd c))))\<rparr>)
   \<and> (case parsed (fst (AddDomainS e' l dm)) of
          [] \<Rightarrow> snd (AddDomainS e' l dm) = Inr l
                \<or> snd (AddDomainS e' l dm) = Inl SliceBoundsOutOfRange
        | c # cs \<Rightarrow>
            snd (AddDomainS e' l dm)
              = Inr (l\<lparr>defaultDomain := (if defaultDomain l = '''' then dm else defaultDomain l),
                       Domains := (Domains l)(dm \<mapsto> Some (parser_for e' (fst c) (snd c)))\<rparr>))"
proof -
  have g: "fst (AddDomainG e g dm)
     = map Stat (probes (fst (AddDomainG e g dm)))
       @ (case parsed (fst (AddDomainG e g dm)) of
            [] \<Rightarrow> []
          | c # cs \<Rightarrow> [ParseFile (fst c) (snd c), Lock, Store dm, Unlock])
    \<and> parse_under_lock False (fst (AddDomainG e g dm)) = (parsed (fst (AddDomainG e g dm)) = [])"
    using AddDomainG_shape [of e g dm] by auto
  have s: "fst (AddDomainS e' l dm)
     = map Stat (probes (fst (AddDomainS e' l dm)))
       @ (case parsed (fst (AddDomainS e' l dm)) of
            [] \<Rightarrow> []
          | c # cs \<Rightarrow> [ParseFile (fst c) (snd c), Lock, Unlock, Store dm])
    \<and> parse_under_lock False (fst (AddDomainS e' l dm)) = (parsed (fst (AddDomainS e' l dm)) = [])"
    using AddDomainS_shape [of e' l dm] by auto
  have gs: "snd (AddDomainG e g dm)
     = (case parsed (fst (AddDomainG e g dm)) of
          [] \<Rightarrow> g
        | c # cs \<Rightarrow>
            g\<lparr>defaultDomain := (if defaultDomain g = '''' then dm else defaultDomain g),
              Domains := Some ((case Domains g of None \<Rightarrow> Map.empty | Some m \<Rightarrow> m)
                                 (dm \<mapsto> Some (parser_for e (fst c) (snd c))))\<rparr>)"
    using AddDomainG_shape [of e g dm] by (auto simp add: saveG_def)
  have ss: "(case parsed (fst (AddDomainS e' l dm)) of
          [] \<Rightarrow> snd (AddDomainS e' l dm) = Inr l
                \<or> snd (AddDomainS e' l dm) = Inl SliceBoundsOutOfRange
        | c # cs \<Rightarrow>
            snd (AddDomainS e' l dm)
              = Inr (l\<lparr>defaultDomain := (if defaultDomain l = '''' then dm else defaultDomain l),
                       Domains := (Domains l)(dm \<mapsto> Some (parser_for e' (fst c) (snd c)))\<rparr>))"
    using AddDomainS_shape [of e' l dm] by (auto simp add: nextAddDomain_def)
  show ?thesis using g s gs ss by simp
qed

text \<open>
  C6 as stated: parsing happens while the exclusive lock is held. In both Locales the
  file is parsed first and the lock taken afterwards.
\<close>

theorem C6_parse_before_lock_counterexample:
  "fst (AddDomainG (diskEnv [''/p/en_US/LC_MESSAGES/app.mo''])
        \<lparr>path = ''/p'', lang = ''en_US'', Domains = None, defaultDomain = ''''\<rparr> ''app'')
     = [Stat ''/p/en_US/LC_MESSAGES/app.mo'', ParseFile ''mo'' ''/p/en_US/LC_MESSAGES/app.mo'',
        Lock, Store ''app'', Unlock]
   \<and> \<not> parse_under_lock False
        (fst (AddDomainG (diskEnv [''/p/en_US/LC_MESSAGES/app.mo''])
           \<lparr>path = ''/p'', lang = ''en_US'', Domains = None, defaultDomain = ''''\<rparr> ''app''))
   \<and> fst (AddDomainS (diskEnvS [''/p/en_US/LC_MESSAGES/app.po''])
        \<lparr>path = ''/p'', lang = ''en_US'', Domains = Map.empty, defaultDomain = ''''\<rparr> ''app'')
     = [Stat ''/p/en_US/LC_MESSAGES/app.po'', ParseFile ''po'' ''/p/en_US/LC_MESSAGES/app.po'',
        Lock, Unlock, Store ''app'']
   \<and> \<not> parse_under_lock False
        (fst (AddDomainS (diskEnvS [''/p/en_US/LC_MESSAGES/app.po''])
           \<lparr>path = ''/p'', lang = ''en_US'', Domains = Map.empty, defaultDomain = ''''\<rparr> ''app''))"
  by (simp add: diskEnv_def diskEnvS_def AddDomainG_def AddDomainS_def findExtG_def findExtS_def
      try_stat_def after_def nextAddDomain_def saveG_def)

section \<open>AddDomain when no file is found\<close>

lemma claimed_none:
  assumes "find (\<lambda>c. statOk e (snd c)) (claimed_candidates e P lg dm) = None"
      and "ext = ''mo'' \<or> ext = ''po''" and "f \<in> set (claimed_for_ext e P lg dm ext)"
  shows "\<not> statOk e f"
proof -
  have "\<forall>c \<in> set (claimed_candidates e P lg dm). \<not> statOk e (snd c)"
    using assms(1) by (simp only: find_None_iff) blast
  moreover have "(ext, f) \<in> set (claimed_candidates e P lg dm)"
    using assms(2,3) by (auto simp add: claimed_candidates_def)
  ultimately show ?thesis by fastforce
qed

lemma findExtG_nothing:
  assumes "find (\<lambda>c. statOk e (snd c)) (claimed_candidates e (path l) (lang l) dm) = None"
      and "ext = ''mo'' \<or> ext = ''po''"
  shows "snd (findExtG e l dm ext) = ''''"
proof -
  have "set (guarded_for_ext e (path l) (lang l) dm ext)
      \<subseteq> set (claimed_for_ext e (path l) (lang l) dm ext)"
    by (simp add: guarded_for_ext_def claimed_for_ext_def)
  then have "find (statOk e) (guarded_for_ext e (path l) (lang l) dm ext) = None"
    using claimed_none [OF assms] by (simp only: find_None_iff) blast
  then show ?thesis by (simp add: findExtG_fold try_all_result)
qed

lemma findExtS_nothing:
  assumes "find (\<lambda>c. statOk e (snd c)) (claimed_candidates e (path l) (lang l) dm) = None"
      and "ext = ''mo'' \<or> ext = ''po''" and "lg = lang l \<or> lg = take 2 (lang l)"
  shows "snd (findExtS e l dm ext lg) = ''''"
proof -
  have "set [pathJoin e [path l, lg, ''LC_MESSAGES'', dm @ ''.'' @ ext],
             pathJoin e [path l, lang l, dm @ ''.'' @ ext]]
      \<subseteq> set (claimed_for_ext e (path l) (lang l) dm ext)"
    using assms(3) by (auto simp add: claimed_for_ext_def)
  then have "find (statOk e) [pathJoin e [path l, lg, ''LC_MESSAGES'', dm @ ''.'' @ ext],
      pathJoin e [path l, lang l, dm @ ''.'' @ ext]] = None"
    using claimed_none [OF assms(1,2)] by (simp only: find_None_iff) blast
  then show ?thesis by (simp only: findExtS_fold try_all_result option.case)
qed

text \<open>
  C7, amended. If none of the candidate files exists, \<open>AddDomain\<close> parses nothing and
  returns with the Locale unchanged (in the sync.Map Locale for a tag of at least two
  bytes): nothing is stored and the default domain is not modified. A domain that had no
  entry still has none, and lookups against it return the caller's plural argument; a
  domain that was loaded before keeps its catalog.
\<close>

theorem C7_nothing_found_nothing_changed:
  assumes "find (\<lambda>c. statOk e (snd c)) (claimed_candidates e (path g) (lang g) dm) = None"
      and "find (\<lambda>c. statOk e' (snd c)) (claimed_candidates e' (path l) (lang l) dm) = None"
  shows "snd (AddDomainG e g dm) = g
       \<and> parsed (fst (AddDomainG e g dm)) = []
       \<and> (entryG g dm = None \<longrightarrow>
            entryG (snd (AddDomainG e g dm)) dm = None
          \<and> DNGettext (snd (AddDomainG e g dm)) dm str plural n = plural
          \<and> DNPGettext (snd (AddDomainG e g dm)) dm ctx str plural n = plural)
       \<and> (2 \<le> length (lang l) \<longrightarrow>
            snd (AddDomainS e' l dm) = Inr l
          \<and> parsed (fst (AddDomainS e' l dm)) = []
          \<and> (Domains l dm = None \<longrightarrow>
               GetND Pf l dm str plural n vars = Inr (Pf plural vars)
             \<and> GetNDC Pf l dm str plural n ctx vars = Inr (Pf plural vars)))"
proof -
  have g1: "AddDomainG e g dm = (fst (findExtG e g dm ''mo'') @ fst (findExtG e g dm ''po''), g)"
    using findExtG_nothing [OF assms(1)] by (simp add: AddDomainG_def Let_def)
  have g2: "parsed (fst (AddDomainG e g dm)) = []"
    using findExtG_trace [of e g dm "''mo''"] findExtG_trace [of e g dm "''po''"]
    by (simp add: g1) (metis parsed_Stat parsed_Stat0)
  have g3: "entryG g dm = None \<Longrightarrow>
      DNGettext g dm str plural n = plural \<and> DNPGettext g dm ctx str plural n = plural"
    by (simp add: entryG_def DNGettext_def DNPGettext_def split: option.splits)
  have s1: "2 \<le> length (lang l) \<Longrightarrow> AddDomainS e' l dm =
      (fst (findExtS e' l dm ''po'' (lang l)) @ fst (findExtS e' l dm ''mo'' (lang l))
       @ fst (findExtS e' l dm ''po'' (take 2 (lang l)))
       @ fst (findExtS e' l dm ''mo'' (take 2 (lang l))), Inr l)"
    using findExtS_nothing [OF assms(2)] by (simp add: AddDomainS_def Let_def)
  have s2: "2 \<le> length (lang l) \<Longrightarrow> parsed (fst (AddDomainS e' l dm)) = []"
    using findExtS_trace [of e' l dm "''po''" "lang l"] findExtS_trace [of e' l dm "''mo''" "lang l"]
      findExtS_trace [of e' l dm "''po''" "take 2 (lang l)"]
      findExtS_trace [of e' l dm "''mo''" "take 2 (lang l)"]
    by (simp add: s1) (metis parsed_Stat parsed_Stat0)
  have s3: "Domains l dm = None \<Longrightarrow> GetND Pf l dm str plural n vars = Inr (Pf plural vars)
      \<and> GetNDC Pf l dm str plural n ctx vars = Inr (Pf plural vars)"
    by (simp add: GetND_def GetNDC_def)
  show ?thesis
    using g2 g3 s2 s3 by (simp add: g1 s1)
qed

theorem C7_nothing_found_nothing_changed_witness:
  "find (\<lambda>c. statOk (diskEnv [''/p/fr/LC_MESSAGES/other.mo'']) (snd c))
     (claimed_candidates (diskEnv [''/p/fr/LC_MESSAGES/other.mo'']) ''/p'' ''fr_CA'' ''app'') = None
   \<and> find (\<lambda>c. statOk (diskEnvS [''/p/fr/LC_MESSAGES/other.mo'']) (snd c))
     (claimed_candidates (diskEnvS [''/p/fr/LC_MESSAGES/other.mo'']) ''/p'' ''fr_CA'' ''app'') = None
   \<and> entryG \<lparr>path = ''/p'', lang = ''fr_CA'', Domains = None, defaultDomain = ''''\<rparr> ''app'' = None
   \<and> 2 \<le> length ''fr_CA''
   \<and> Domains \<lparr>path = ''/p'', lang = ''fr_CA'', Domains = Map.empty, defaultDomain = ''''\<rparr> ''app''
       = None
   \<and> snd (AddDomainG (diskEnv [''/p/fr/LC_MESSAGES/other.mo''])
        \<lparr>path = ''/p'', lang = ''fr_CA'', Domains = None, defaultDomain = ''''\<rparr> ''app'')
       = \<lparr>path = ''/p'', lang = ''fr_CA'', Domains = None, defaultDomain = ''''\<rparr>
   \<and> DNGettext (snd (AddDomainG (diskEnv [''/p/fr/LC_MESSAGES/other.mo''])
        \<lparr>path = ''/p'', lang = ''fr_CA'', Domains = None, defaultDomain = ''''\<rparr> ''app''))
        ''app'' ''apple'' ''apples'' 2 = ''apples''
   \<and> snd (AddDomainS (diskEnvS [''/p/fr/LC_MESSAGES/other.mo''])
        \<lparr>path = ''/p'', lang = ''fr_CA'', Domains = Map.empty, defaultDomain = ''''\<rparr> ''app'')
       = Inr \<lparr>path = ''/p'', lang = ''fr_CA'', Domains = Map.empty, defaultDomain = ''''\<rparr>
   \<and> GetND (printf (\<lambda>s vs. s @ concat vs))
        \<lparr>path = ''/p'', lang = ''fr_CA'', Domains = Map.empty, defaultDomain = ''''\<rparr>
        ''app'' ''apple'' ''apples'' 2 ([]::string list) = Inr ''apples''"
  using C7_nothing_found_nothing_changed
    [of "diskEnv [''/p/fr/LC_MESSAGES/other.mo'']"
        "\<lparr>path = ''/p'', lang = ''fr_CA'', Domains = None, defaultDomain = ''''\<rparr>" "''app''"
        "diskEnvS [''/p/fr/LC_MESSAGES/other.mo'']"
        "\<lparr>path = ''/p'', lang = ''fr_CA'', Domains = Map.empty, defaultDomain = ''''\<rparr>"
        "''apple''" "''apples''" 2 "''menu''" "printf (\<lambda>s vs. s @ concat vs)" "[]::string list"]
  by (simp add: diskEnv_def diskEnvS_def claimed_candidates_def claimed_for_ext_def entryG_def
      printf_def DNGettext_def GetND_def)

text \<open>
  C7 as stated: after an \<open>AddDomain\<close> that finds no file, there is no entry for the
  domain and lookups fall back to the source string. For a domain loaded earlier, whose
  files have gone, the old entry stays and keeps answering.
\<close>

theorem C7_stale_entry_counterexample:
  "find (\<lambda>c. statOk (diskEnv []) (snd c)) (claimed_candidates (diskEnv []) ''/p'' ''de_DE'' ''app'')
     = None
   \<and> snd (AddDomainG (diskEnv [])
        \<lparr>path = ''/p'', lang = ''de_DE'',
         Domains = Some [''app'' \<mapsto> Some (constTr ''Apfel'')], defaultDomain = ''app''\<rparr> ''app'')
     = \<lparr>path = ''/p'', lang = ''de_DE'',
         Domains = Some [''app'' \<mapsto> Some (constTr ''Apfel'')], defaultDomain = ''app''\<rparr>
   \<and> entryG (snd (AddDomainG (diskEnv [])
        \<lparr>path = ''/p'', lang = ''de_DE'',
         Domains = Some [''app'' \<mapsto> Some (constTr ''Apfel'')], defaultDomain = ''app''\<rparr> ''app''))
        ''app'' \<noteq> None
   \<and> DNGettext (snd (AddDomainG (diskEnv [])
        \<lparr>path = ''/p'', lang = ''de_DE'',
         Domains = Some [''app'' \<mapsto> Some (constTr ''Apfel'')], defaultDomain = ''app''\<rparr> ''app''))
        ''app'' ''apple'' ''apples'' 2 = ''Apfel''
   \<and> DNGettext (snd (AddDomainG (diskEnv [])
        \<lparr>path = ''/p'', lang = ''de_DE'',
         Domains = Some [''app'' \<mapsto> Some (constTr ''Apfel'')], defaultDomain = ''app''\<rparr> ''app''))
        ''app'' ''apple'' ''apples'' 2 \<noteq> ''apples''"
  by (simp add: diskEnv_def claimed_candidates_def claimed_for_ext_def AddDomainG_def findExtG_def
      try_stat_def try_stat_if_def entryG_def DNGettext_def constTr_def)
section \<open>The default domain\<close>

lemma AddDomainG_default:
  "defaultDomain (snd (AddDomainG e g dm)) =
     (if parsed (fst (AddDomainG e g dm)) \<noteq> [] \<and> defaultDomain g = '''' then dm
      else defaultDomain g)"
  using AddDomainG_shape [of e g dm] by (auto simp add: saveG_def)

lemma AddDomainS_default:
  "snd (AddDomainS e l dm) = Inr l' \<Longrightarrow>
   defaultDomain l' =
     (if parsed (fst (AddDomainS e l dm)) \<noteq> [] \<and> defaultDomain l = '''' then dm
      else defaultDomain l)"
  using AddDomainS_shape [of e l dm] by (auto simp add: nextAddDomain_def)

lemma AddDomainS_parsed_returns:
  "parsed (fst (AddDomainS e l dm)) \<noteq> [] \<Longrightarrow> \<exists>l'. snd (AddDomainS e l dm) = Inr l'"
  using AddDomainS_shape [of e l dm] by (auto simp add: nextAddDomain_def)

lemma callsS_default:
  "defaultDomain l \<noteq> '''' \<Longrightarrow> callsS e l cs = Inr l' \<Longrightarrow> defaultDomain l' = defaultDomain l"
proof (induction e l cs rule: callsS.induct)
  case (1 e l)
  then show ?case by simp
next
  case (2 e l dm cs)
  from "2.prems"(2) obtain l1 where l1: "snd (AddDomainS e l dm) = Inr l1" and rest: "callsS e l1 cs = Inr l'"
    by (auto split: sum.splits)
  have d: "defaultDomain l1 = defaultDomain l"
    using AddDomainS_default [OF l1] "2.prems"(1) by simp
  with "2.IH" [OF l1 _ rest] "2.prems"(1) show ?case by simp
next
  case (3 e l dm tr cs)
  have d: "defaultDomain (AddTranslator l dm tr) = defaultDomain l"
    using "3.prems"(1) by (simp add: AddTranslator_def)
  with "3.IH" [OF _ ] "3.prems" show ?case by simp
qed

lemma callsG_default:
  "defaultDomain g \<noteq> '''' \<Longrightarrow> defaultDomain (callsG e g dms) = defaultDomain g"
  by (induction dms arbitrary: g) (simp_all add: AddDomainG_default)

text \<open>
  C8, amended. While the default domain is empty, a domain added by \<open>AddTranslator\<close>, or
  by an \<open>AddDomain\<close> that loads a file, becomes the default domain and \<open>GetDomain\<close>
  returns it. A default domain with a non-empty name is changed by no later \<open>AddDomain\<close>
  or \<open>AddTranslator\<close>; \<open>SetDomain\<close> sets it. (A first domain whose name is the empty
  string leaves the default domain empty, so the next domain added replaces it.)
\<close>

theorem C8_first_named_domain_is_default:
  "(defaultDomain l = '''' \<longrightarrow> GetDomain (AddTranslator l dm tr) = dm)
   \<and> (defaultDomain l = '''' \<and> parsed (fst (AddDomainS e' l dm)) \<noteq> [] \<longrightarrow>
        (\<exists>l'. snd (AddDomainS e' l dm) = Inr l' \<and> GetDomain l' = dm))
   \<and> (defaultDomain g = '''' \<and> parsed (fst (AddDomainG e g dm)) \<noteq> [] \<longrightarrow>
        GetDomain (snd (AddDomainG e g dm)) = dm)
   \<and> (GetDomain l \<noteq> '''' \<and> callsS e' l cs = Inr l' \<longrightarrow> GetDomain l' = GetDomain l)
   \<and> (GetDomain g \<noteq> '''' \<longrightarrow> GetDomain (callsG e g dms) = GetDomain g)
   \<and> GetDomain (SetDomain l d) = d
   \<and> GetDomain (SetDomain g d) = d"
proof -
  have a: "defaultDomain l = '''' \<longrightarrow> GetDomain (AddTranslator l dm tr) = dm"
    by (simp add: GetDomain_def AddTranslator_def)
  have b: "defaultDomain l = '''' \<and> parsed (fst (AddDomainS e' l dm)) \<noteq> [] \<longrightarrow>
        (\<exists>l'. snd (AddDomainS e' l dm) = Inr l' \<and> GetDomain l' = dm)"
    using AddDomainS_parsed_returns [of e' l dm] AddDomainS_default [of e' l dm]
    by (auto simp add: GetDomain_def)
  have c: "defaultDomain g = '''' \<and> parsed (fst (AddDomainG e g dm)) \<noteq> [] \<longrightarrow>
        GetDomain (snd (AddDomainG e g dm)) = dm"
    by (simp add: GetDomain_def AddDomainG_default)
  have d: "GetDomain l \<noteq> '''' \<and> callsS e' l cs = Inr l' \<longrightarrow> GetDomain l' = GetDomain l"
    using callsS_default [of l e' cs l'] by (simp add: GetDomain_def)
  have e: "GetDomain g \<noteq> '''' \<longrightarrow> GetDomain (callsG e g dms) = GetDomain g"
    using callsG_default [of g e dms] by (simp add: GetDomain_def)
  show ?thesis
    using a b c d e by (simp add: GetDomain_def SetDomain_def)
qed

theorem C8_first_named_domain_is_default_witness:
  "defaultDomain \<lparr>path = ''/p'', lang = ''en_US'', Domains = Map.empty, defaultDomain = ''''\<rparr> = ''''
   \<and> GetDomain (AddTranslator
        \<lparr>path = ''/p'', lang = ''en_US'', Domains = Map.empty, defaultDomain = ''''\<rparr>
        ''app'' (Some (constTrS ''Apfel''))) = ''app''
   \<and> parsed (fst (AddDomainS (diskEnvS [''/p/en_US/app.po'', ''/p/en_US/extras.po''])
        \<lparr>path = ''/p'', lang = ''en_US'', Domains = Map.empty, defaultDomain = ''''\<rparr> ''app'')) \<noteq> []
   \<and> snd (AddDomainS (diskEnvS [''/p/en_US/app.po'', ''/p/en_US/extras.po''])
        \<lparr>path = ''/p'', lang = ''en_US'', Domains = Map.empty, defaultDomain = ''''\<rparr> ''app'')
      = Inr \<lparr>path = ''/p'', lang = ''en_US'',
              Domains = [''app'' \<mapsto> Some (constTrS ''/p/en_US/app.po'')],
              defaultDomain = ''app''\<rparr>
   \<and> parsed (fst (AddDomainG (diskEnv [''/p/en_US/app.po'', ''/p/en_US/extras.po''])
        \<lparr>path = ''/p'', lang = ''en_US'', Domains = None, defaultDomain = ''''\<rparr> ''app'')) \<noteq> []
   \<and> GetDomain (snd (AddDomainG (diskEnv [''/p/en_US/app.po'', ''/p/en_US/extras.po''])
        \<lparr>path = ''/p'', lang = ''en_US'', Domains = None, defaultDomain = ''''\<rparr> ''app'')) = ''app''
   \<and> GetDomain (AddTranslator
        \<lparr>path = ''/p'', lang = ''en_US'', Domains = Map.empty, defaultDomain = ''''\<rparr>
        ''app'' (Some (constTrS ''Apfel''))) \<noteq> ''''
   \<and> callsS (diskEnvS [''/p/en_US/app.po'', ''/p/en_US/extras.po''])
        (AddTranslator
           \<lparr>path = ''/p'', lang = ''en_US'', Domains = Map.empty, defaultDomain = ''''\<rparr>
           ''app'' (Some (constTrS ''Apfel'')))
        [CallAddDomain ''extras'', CallAddTranslator ''more'' None]
      = Inr \<lparr>path = ''/p'', lang = ''en_US'',
              Domains = [''app'' \<mapsto> Some (constTrS ''Apfel''),
                         ''extras'' \<mapsto> Some (constTrS ''/p/en_US/extras.po''),
                         ''more'' \<mapsto> None],
              defaultDomain = ''app''\<rparr>
   \<and> GetDomain (callsG (diskEnv [''/p/en_US/app.po'', ''/p/en_US/extras.po''])
        (snd (AddDomainG (diskEnv [''/p/en_US/app.po'', ''/p/en_US/extras.po''])
           \<lparr>path = ''/p'', lang = ''en_US'', Domains = None, defaultDomain = ''''\<rparr> ''app''))
        [''extras'', ''missing'']) = ''app''
   \<and> GetDomain (SetDomain (AddTranslator
        \<lparr>path = ''/p'', lang = ''en_US'', Domains = Map.empty, defaultDomain = ''''\<rparr>
        ''app'' (Some (constTrS ''Apfel''))) ''extras'') = ''extras''"
  using C8_first_named_domain_is_default
    [of "\<lparr>path = ''/p'', lang = ''en_US'', Domains = Map.empty, defaultDomain = ''''\<rparr>"
        "''app''" "Some (constTrS ''Apfel'')"
        "diskEnvS [''/p/en_US/app.po'', ''/p/en_US/extras.po'']"
        "\<lparr>path = ''/p'', lang = ''en_US'', Domains = None, defaultDomain = ''''\<rparr>"
        "diskEnv [''/p/en_US/app.po'', ''/p/en_US/extras.po'']"]
    C8_first_named_domain_is_default
    [of "AddTranslator
           \<lparr>path = ''/p'', lang = ''en_US'', Domains = Map.empty, defaultDomain = ''''\<rparr>
           ''app'' (Some (constTrS ''Apfel''))"
        "''app''" "Some (constTrS ''Apfel'')"
        "diskEnvS [''/p/en_US/app.po'', ''/p/en_US/extras.po'']"
        "snd (AddDomainG (diskEnv [''/p/en_US/app.po'', ''/p/en_US/extras.po''])
           \<lparr>path = ''/p'', lang = ''en_US'', Domains = None, defaultDomain = ''''\<rparr> ''app'')"
        "diskEnv [''/p/en_US/app.po'', ''/p/en_US/extras.po'']"
        "[CallAddDomain ''extras'', CallAddTranslator ''more'' None]" _
        "[''extras'', ''missing'']" "''extras''"]
  by (simp add: diskEnv_def diskEnvS_def AddDomainG_def AddDomainS_def findExtG_def findExtS_def
      try_stat_def try_stat_if_def after_def nextAddDomain_def saveG_def AddTranslator_def
      GetDomain_def SetDomain_def fun_upd_twist)

text \<open>
  C8 as stated: the first domain added remains the default until \<open>SetDomain\<close>. When the
  first domain has the empty name, the default domain stays empty and the next domain
  added becomes the default.
\<close>

theorem C8_empty_name_counterexample:
  "GetDomain (AddTranslator
      \<lparr>path = ''/p'', lang = ''en_US'', Domains = Map.empty, defaultDomain = ''''\<rparr>
      '''' (Some (constTrS ''first''))) = ''''
   \<and> Domains (AddTranslator
      \<lparr>path = ''/p'', lang = ''en_US'', Domains = Map.empty, defaultDomain = ''''\<rparr>
      '''' (Some (constTrS ''first''))) '''' \<noteq> None
   \<and> callsS (diskEnvS [''/p/en_US/LC_MESSAGES/extras.po''])
        (AddTranslator
           \<lparr>path = ''/p'', lang = ''en_US'', Domains = Map.empty, defaultDomain = ''''\<rparr>
           '''' (Some (constTrS ''first'')))
        [CallAddDomain ''extras'']
      = Inr \<lparr>path = ''/p'', lang = ''en_US'',
              Domains = ['''' \<mapsto> Some (constTrS ''first''),
                         ''extras'' \<mapsto> Some (constTrS ''/p/en_US/LC_MESSAGES/extras.po'')],
              defaultDomain = ''extras''\<rparr>
   \<and> GetDomain (snd (AddDomainG (diskEnv [''/p/en_US/.mo'', ''/p/en_US/extras.mo''])
        \<lparr>path = ''/p'', lang = ''en_US'', Domains = None, defaultDomain = ''''\<rparr> '''')) = ''''
   \<and> parsed (fst (AddDomainG (diskEnv [''/p/en_US/.mo'', ''/p/en_US/extras.mo''])
        \<lparr>path = ''/p'', lang = ''en_US'', Domains = None, defaultDomain = ''''\<rparr> ''''))
      = [(''mo'', ''/p/en_US/.mo'')]
   \<and> GetDomain (callsG (diskEnv [''/p/en_US/.mo'', ''/p/en_US/extras.mo''])
        \<lparr>path = ''/p'', lang = ''en_US'', Domains = None, defaultDomain = ''''\<rparr>
        ['''', ''extras'']) = ''extras''"
  by (simp add: diskEnv_def diskEnvS_def AddDomainG_def AddDomainS_def findExtG_def findExtS_def
      try_stat_def try_stat_if_def after_def nextAddDomain_def saveG_def AddTranslator_def
      GetDomain_def)

section \<open>Lookups through the package-level configuration\<close>

lemma findExtS_first_probe:
  "\<exists>t. fst (findExtS e l dm ext lg)
         = Stat (pathJoin e [path l, lg, ''LC_MESSAGES'', dm @ ''.'' @ ext]) # t"
  by (simp add: findExtS_def try_stat_def)

lemma AddDomainS_first_probe:
  "\<exists>t. fst (AddDomainS e l dm)
         = Stat (pathJoin e [path l, lang l, ''LC_MESSAGES'', dm @ ''.po'']) # t"
proof -
  obtain t1 where t1: "fst (findExtS e l dm ''po'' (lang l))
      = Stat (pathJoin e [path l, lang l, ''LC_MESSAGES'', dm @ ''.po'']) # t1"
    using findExtS_first_probe [of e l dm "''po''" "lang l"] by auto
  have "\<exists>t. fst (AddDomainS e l dm) = fst (findExtS e l dm ''po'' (lang l)) @ t"
    by (simp add: AddDomainS_def Let_def after_def)
  then show ?thesis using t1 by auto
qed

lemma bindT_first:
  "fst r = ev # t \<Longrightarrow> \<exists>t'. fst (bindT r f) = ev # t'"
  by (simp add: bindT_def after_def split: sum.splits)

lemma loadStorage_first_probe:
  "\<exists>f t. fst (loadStorage e simplified c force) = Stat f # t"
proof -
  let ?v = "case storage c (language c) of Some v \<Rightarrow> v
            | None \<Rightarrow> NewLocale simplified (library c) (language c)"
  obtain f t where "fst (AddDomainS e ?v (domain c)) = Stat f # t"
    using AddDomainS_first_probe [of e ?v "domain c"] by blast
  then have "\<exists>t'. fst (loadLocale e simplified force c (language c)) = Stat f # t'"
    unfolding loadLocale_def by (rule bindT_first)
  then obtain t' where "fst (loadLocale e simplified force c (language c)) = Stat f # t'" ..
  then have "\<exists>t''. fst (loadStorage e simplified c force) = Stat f # t''"
    unfolding loadStorage_def by (rule bindT_first)
  then show ?thesis by blast
qed

lemma lookup_prefix_first_probe:
  "\<exists>f t. fst (bindT (if Domains v dm = None then AddDomainS e v dm else ([], Inr v))
      (\<lambda>v2'. bindT (loadStorage e simplified (c\<lparr>storage := (storage c)(language c \<mapsto> v2')\<rparr>) True)
         (k v2')))
      = Stat f # t"
proof (cases "Domains v dm = None")
  case True
  obtain f t where "fst (AddDomainS e v dm) = Stat f # t"
    using AddDomainS_first_probe [of e v dm] by blast
  then have "\<exists>t'. fst (bindT (AddDomainS e v dm)
      (\<lambda>v2'. bindT (loadStorage e simplified (c\<lparr>storage := (storage c)(language c \<mapsto> v2')\<rparr>) True)
         (k v2'))) = Stat f # t'"
    by (rule bindT_first)
  then show ?thesis by (simp only: True if_True simp_thms) blast
next
  case False
  let ?c = "c\<lparr>storage := (storage c)(language c \<mapsto> v)\<rparr>"
  obtain f t where "fst (loadStorage e simplified ?c True) = Stat f # t"
    using loadStorage_first_probe [of e simplified ?c True] by blast
  then have "\<exists>t'. fst (bindT (loadStorage e simplified ?c True) (k v)) = Stat f # t'"
    by (rule bindT_first)
  then have "\<exists>f t'. fst (bindT (loadStorage e simplified ?c True) (k v)) = Stat f # t'"
    by blast
  then show ?thesis using False by (auto simp add: bindT_def [of "([], Inr v)"] after_def)
qed

text \<open>
  Whenever the storage holds a Locale for the current language, a lookup through the
  configuration starts with a call of \<open>os.Stat\<close>, whether the domain is loaded or not.
\<close>

lemma every_lookup_probes_the_disk:
  assumes "storage c (language c) = Some v"
  shows "(\<exists>f t. fst (config_GetND Pf e simplified c dm str plural n vars) = Stat f # t)
       \<and> (\<exists>f t. fst (config_GetNDC Pf e simplified c dm str plural n ctx vars) = Stat f # t)"
proof
  show "\<exists>f t. fst (config_GetND Pf e simplified c dm str plural n vars) = Stat f # t"
    unfolding config_GetND_def assms option.case by (rule lookup_prefix_first_probe)
  show "\<exists>f t. fst (config_GetNDC Pf e simplified c dm str plural n ctx vars) = Stat f # t"
    unfolding config_GetNDC_def assms option.case by (rule lookup_prefix_first_probe)
qed

text \<open>
  C5. A lookup through the package-level \<open>GetND\<close> against a domain that is already loaded
  for the current language should be a pure read. In the configuration over sync.Map
  Locales it is not: \<open>config.GetND\<close> calls \<open>c.loadStorage(true)\<close> on every lookup, and
  \<open>loadStorage\<close> adds the default domain without a test and, being forced, every domain of
  \<open>loadDomains\<close>, for the current language and for every language of \<open>loadLanguages\<close>.
  With the settings of \<open>init\<close>, the domain \<open>default\<close> loaded and its \<open>.po\<close> file on disk,
  one lookup probes and parses the file four times and replaces the stored catalog.
\<close>

theorem C5_lookup_reloads_from_disk:
  "fst (config_GetND (printf (\<lambda>s vs. s @ concat vs))
          (diskEnvS [''/usr/local/share/locale/en_US/LC_MESSAGES/default.po''])
          (\<lambda>l. l)
          \<lparr>loadDomains = [''default''], domain = ''default'',
           loadLanguages = [''en_US''], language = ''en_US'',
           library = ''/usr/local/share/locale'',
           storage = [''en_US'' \<mapsto>
             \<lparr>path = ''/usr/local/share/locale'', lang = ''en_US'',
              Domains = [''default'' \<mapsto> Some (constTrS ''loaded earlier'')],
              defaultDomain = ''default''\<rparr>]\<rparr>
          ''default'' ''Hello'' ''Hello'' 1 [])
     = [Stat ''/usr/local/share/locale/en_US/LC_MESSAGES/default.po'',
        ParseFile ''po'' ''/usr/local/share/locale/en_US/LC_MESSAGES/default.po'',
        Lock, Unlock, Store ''default'',
        Stat ''/usr/local/share/locale/en_US/LC_MESSAGES/default.po'',
        ParseFile ''po'' ''/usr/local/share/locale/en_US/LC_MESSAGES/default.po'',
        Lock, Unlock, Store ''default'',
        Stat ''/usr/local/share/locale/en_US/LC_MESSAGES/default.po'',
        ParseFile ''po'' ''/usr/local/share/locale/en_US/LC_MESSAGES/default.po'',
        Lock, Unlock, Store ''default'',
        Stat ''/usr/local/share/locale/en_US/LC_MESSAGES/default.po'',
        ParseFile ''po'' ''/usr/local/share/locale/en_US/LC_MESSAGES/default.po'',
        Lock, Unlock, Store ''default'']
   \<and> snd (config_GetND (printf (\<lambda>s vs. s @ concat vs))
          (diskEnvS [''/usr/local/share/locale/en_US/LC_MESSAGES/default.po''])
          (\<lambda>l. l)
          \<lparr>loadDomains = [''default''], domain = ''default'',
           loadLanguages = [''en_US''], language = ''en_US'',
           library = ''/usr/local/share/locale'',
           storage = [''en_US'' \<mapsto>
             \<lparr>path = ''/usr/local/share/locale'', lang = ''en_US'',
              Domains = [''default'' \<mapsto> Some (constTrS ''loaded earlier'')],
              defaultDomain = ''default''\<rparr>]\<rparr>
          ''default'' ''Hello'' ''Hello'' 1 [])
     = Inr (''/usr/local/share/locale/en_US/LC_MESSAGES/default.po'',
        \<lparr>loadDomains = [''default''], domain = ''default'',
         loadLanguages = [''en_US''], language = ''en_US'',
         library = ''/usr/local/share/locale'',
         storage = [''en_US'' \<mapsto>
           \<lparr>path = ''/usr/local/share/locale'', lang = ''en_US'',
            Domains = [''default'' \<mapsto>
              Some (constTrS ''/usr/local/share/locale/en_US/LC_MESSAGES/default.po'')],
            defaultDomain = ''default''\<rparr>]\<rparr>)"
  by (simp add: config_GetND_def loadStorage_def loadLocale_def bindT_def after_def
      diskEnvS_def AddDomainS_def findExtS_def try_stat_def nextAddDomain_def GetND_def
      constTrS_def)

subsection \<open>The configuration over a Go map\<close>

lemma addLoadDomainsM_loaded:
  "list_all (hasDomain ops l) ds \<Longrightarrow> addLoadDomainsM ops False l ds = ([], l)"
  by (induction ds) (simp_all add: addIfMissing_def after_def)

lemma loadLanguagesLoopM_loaded:
  "list_all (\<lambda>lg. case st lg of None \<Rightarrow> False | Some l \<Rightarrow> list_all (hasDomain ops l) (loadDomains c)) lgs
   \<Longrightarrow> loadLanguagesLoopM ops False c st lgs = ([], st)"
proof (induction lgs)
  case Nil
  then show ?case by simp
next
  case (Cons lg lgs)
  then obtain l where l: "st lg = Some l" "list_all (hasDomain ops l) (loadDomains c)"
    by (auto split: option.splits)
  have "st(lg \<mapsto> l) = st"
    using l(1) by (rule map_upd_triv)
  then show ?case
    using Cons l by (simp add: ensureLocale_def addLoadDomainsM_loaded after_def)
qed

text \<open>
  The configuration of part_001 calls \<open>loadStorage(false)\<close> in its lookups. Once the
  Locale of the current language has the default domain and the Locale of every language
  of \<open>loadLanguages\<close> has every domain of \<open>loadDomains\<close>, its \<open>loadStorage(false)\<close>
  does nothing and its \<open>GetND\<close> is a pure read: no event, the configuration unchanged,
  the answer of the stored Locale.
\<close>

lemma map_facade_lookup_is_a_pure_read:
  assumes "storage c = Some st" and "st (language c) = Some l" and "hasDomain ops l (domain c)"
      and "list_all (\<lambda>lg. case st lg of None \<Rightarrow> False
                            | Some l' \<Rightarrow> list_all (hasDomain ops l') (loadDomains c))
             (loadLanguages c)"
  shows "loadStorageM ops c False = ([], c)"
    and "config_GetNDM ops c dm str plural n vars = ([], Inr (getND ops l dm str plural n vars, c))"
proof -
  have same: "st(language c \<mapsto> l) = st"
    using assms(2) by (rule map_upd_triv)
  have "c\<lparr>storage := Some st\<rparr> = c"
    using assms(1) by simp
  then show a: "loadStorageM ops c False = ([], c)"
    using assms loadLanguagesLoopM_loaded [where st = st and ops = ops and c = c and lgs = "loadLanguages c"]
    by (simp add: loadStorageM_def ensureLocale_def addIfMissing_def same)
  show "config_GetNDM ops c dm str plural n vars = ([], Inr (getND ops l dm str plural n vars, c))"
    using assms(1,2) by (simp add: config_GetNDM_def a)
qed

section \<open>Serialisation of a Locale\<close>

lemma marshalRange_all:
  assumes "\<forall>k v. D k = Some v \<longrightarrow> (\<exists>t. v = Some t \<and> snd (trs_MarshalBinary t) = None)"
  shows "\<exists>ds. marshalRange D ks acc = Inr ds
          \<and> (\<forall>k. ds k = (if k \<in> set ks \<and> D k \<noteq> None
                            then map_option (\<lambda>v. fst (trs_MarshalBinary (the v))) (D k)
                            else acc k))"
proof (induction ks arbitrary: acc)
  case Nil
  then show ?case by simp
next
  case (Cons k ks)
  show ?case
  proof (cases "D k")
    case None
    then show ?thesis using Cons [of acc] by auto
  next
    case (Some v)
    then obtain t where t: "v = Some t" "snd (trs_MarshalBinary t) = None"
      using assms by blast
    obtain ds where ds: "marshalRange D ks (acc(k \<mapsto> fst (trs_MarshalBinary t))) = Inr ds"
        "\<forall>k'. ds k' = (if k' \<in> set ks \<and> D k' \<noteq> None
                          then map_option (\<lambda>v. fst (trs_MarshalBinary (the v))) (D k')
                          else (acc(k \<mapsto> fst (trs_MarshalBinary t))) k')"
      using Cons [of "acc(k \<mapsto> fst (trs_MarshalBinary t))"] by blast
    have "marshalRange D (k # ks) acc = Inr ds"
      using Some t ds(1) by simp
    moreover have "\<forall>k'. ds k' = (if k' \<in> set (k # ks) \<and> D k' \<noteq> None
                          then map_option (\<lambda>v. fst (trs_MarshalBinary (the v))) (D k')
                          else acc k')"
      using ds(2) Some t by auto
    ultimately show ?thesis by blast
  qed
qed

lemma decodeDomains_all:
  assumes "\<forall>k b. E k = Some b \<longrightarrow> (\<exists>te. gobDecodeTr G b = Inr te \<and> F k = GetTranslator G te)"
  shows "\<exists>l'. decodeDomains G E ks l = (None, l')
          \<and> path l' = path l \<and> lang l' = lang l \<and> defaultDomain l' = defaultDomain l
          \<and> (\<forall>k. Domains l' k = (if k \<in> set ks \<and> E k \<noteq> None then Some (F k) else Domains l k))"
proof (induction ks arbitrary: l)
  case Nil
  then show ?case by simp
next
  case (Cons k ks)
  show ?case
  proof (cases "E k")
    case None
    then show ?thesis using Cons [of l] by auto
  next
    case (Some b)
    then obtain te where te: "gobDecodeTr G b = Inr te" "F k = GetTranslator G te"
      using assms by blast
    let ?l1 = "l\<lparr>Domains := (Domains l)(k \<mapsto> GetTranslator G te)\<rparr>"
    obtain l' where l': "decodeDomains G E ks ?l1 = (None, l')"
        "path l' = path ?l1" "lang l' = lang ?l1" "defaultDomain l' = defaultDomain ?l1"
        "\<forall>k'. Domains l' k' = (if k' \<in> set ks \<and> E k' \<noteq> None then Some (F k') else Domains ?l1 k')"
      using Cons [of ?l1] by blast
    have "decodeDomains G E (k # ks) l = (None, l')"
      using Some te l'(1) by simp
    moreover have "\<forall>k'. Domains l' k' =
        (if k' \<in> set (k # ks) \<and> E k' \<noteq> None then Some (F k') else Domains l k')"
      using l'(5) Some te by auto
    ultimately show ?thesis using l'(2,3,4) by auto
  qed
qed

text \<open>
  C9. Let every domain of a Locale hold a translator that marshals without error, let
  \<open>MarshalBinary\<close> return a blob without error, let \<open>gob\<close> decode what it encoded, and let
  the bytes of each translator decode to a translator with the same translations. Then
  \<open>UnmarshalBinary\<close> on that blob returns no error and leaves the receiver with the same
  language, path and default domain; every domain of the Locale is a domain of the
  receiver, with the same translations; the other entries of the receiver are as before,
  so that a new receiver ends with the same set of domains. This holds whatever the order
  in which \<open>Range\<close> and the loop over the decoded map visit the keys.
  \<open>UnmarshalBinary\<close> has no access to the file system: it takes neither \<open>os.Stat\<close>
  nor a parser.
\<close>

theorem C9_marshal_unmarshal_round_trip:
  assumes all_ok: "\<forall>k v. Domains l k = Some v \<longrightarrow> (\<exists>t. v = Some t \<and> snd (trs_MarshalBinary t) = None)"
      and visited: "set ks = dom (Domains l)" "set ks' = dom (Domains l)"
      and marshalled: "MarshalBinary G ks l = Inr (blob, None)"
      and gob_round_trip:
        "\<forall>obj. encodingOf ks l = Inr obj \<longrightarrow> gobDecode G (fst (gobEncode G obj)) = Inr obj"
      and translator_round_trip:
        "\<forall>k t. Domains l k = Some (Some t) \<longrightarrow>
           (\<exists>te t'. gobDecodeTr G (fst (trs_MarshalBinary t)) = Inr te
                    \<and> GetTranslator G te = Some t' \<and> same_translations t' t)"
  shows "fst (UnmarshalBinary G ks' r blob) = None
       \<and> lang (snd (UnmarshalBinary G ks' r blob)) = lang l
       \<and> path (snd (UnmarshalBinary G ks' r blob)) = path l
       \<and> defaultDomain (snd (UnmarshalBinary G ks' r blob)) = defaultDomain l
       \<and> dom (Domains (snd (UnmarshalBinary G ks' r blob))) = dom (Domains l) \<union> dom (Domains r)
       \<and> (Domains r = Map.empty \<longrightarrow>
            dom (Domains (snd (UnmarshalBinary G ks' r blob))) = dom (Domains l))
       \<and> (\<forall>k t. Domains l k = Some (Some t) \<longrightarrow>
            (\<exists>t'. Domains (snd (UnmarshalBinary G ks' r blob)) k = Some (Some t')
                  \<and> same_translations t' t))
       \<and> (\<forall>k. Domains l k = None \<longrightarrow>
            Domains (snd (UnmarshalBinary G ks' r blob)) k = Domains r k)"
proof -
  obtain ds where ds: "marshalRange (Domains l) ks Map.empty = Inr ds"
      "\<forall>k. ds k = (if k \<in> set ks \<and> Domains l k \<noteq> None
                     then map_option (\<lambda>v. fst (trs_MarshalBinary (the v))) (Domains l k)
                     else None)"
    using marshalRange_all [OF all_ok, of ks Map.empty] by auto
  define obj where "obj = \<lparr>Path = path l, Lang = lang l, Domains_enc = ds,
      DefaultDomain = defaultDomain l\<rparr>"
  have enc: "encodingOf ks l = Inr obj"
    by (simp add: encodingOf_def ds(1) obj_def)
  have blob: "blob = fst (gobEncode G obj)"
    using marshalled by (auto simp add: MarshalBinary_def enc)
  have dec: "gobDecode G blob = Inr obj"
    using gob_round_trip enc blob by simp
  have ds_dom: "\<And>k. (ds k \<noteq> None) = (Domains l k \<noteq> None)"
    using ds(2) visited(1) by (auto simp add: dom_def)
  define F where "F = (\<lambda>k. case Domains l k of
      Some (Some t) \<Rightarrow>
        (case gobDecodeTr G (fst (trs_MarshalBinary t)) of
           Inr te \<Rightarrow> GetTranslator G te | Inl err \<Rightarrow> None)
    | _ \<Rightarrow> None)"
  have each: "\<forall>k b. ds k = Some b \<longrightarrow> (\<exists>te. gobDecodeTr G b = Inr te \<and> F k = GetTranslator G te)"
  proof (intro allI impI)
    fix k b assume b: "ds k = Some b"
    then have "Domains l k \<noteq> None" using ds_dom [of k] by simp
    then obtain t where t: "Domains l k = Some (Some t)" using all_ok by blast
    then have bt: "b = fst (trs_MarshalBinary t)"
      using b ds(2) visited(1) by (auto simp add: dom_def split: if_splits)
    obtain te where "gobDecodeTr G (fst (trs_MarshalBinary t)) = Inr te"
      using translator_round_trip t by blast
    then show "\<exists>te. gobDecodeTr G b = Inr te \<and> F k = GetTranslator G te"
      using bt t by (simp add: F_def)
  qed
  let ?r1 = "r\<lparr>defaultDomain := DefaultDomain obj, lang := Lang obj, path := Path obj\<rparr>"
  obtain l' where l': "decodeDomains G ds ks' ?r1 = (None, l')"
      "path l' = path ?r1" "lang l' = lang ?r1" "defaultDomain l' = defaultDomain ?r1"
      "\<forall>k. Domains l' k = (if k \<in> set ks' \<and> ds k \<noteq> None then Some (F k) else Domains ?r1 k)"
    using decodeDomains_all [OF each, of ks' ?r1] by blast
  have un: "UnmarshalBinary G ks' r blob = (None, l')"
    using l'(1) by (simp add: UnmarshalBinary_def dec obj_def)
  have entry: "\<And>k. Domains l' k = (if Domains l k \<noteq> None then Some (F k) else Domains r k)"
    using l'(5) ds_dom visited(2) by (auto simp add: dom_def)
  have doms: "dom (Domains l') = dom (Domains l) \<union> dom (Domains r)"
    using entry by (auto simp add: dom_def split: if_splits)
  have same: "\<forall>k t. Domains l k = Some (Some t) \<longrightarrow>
      (\<exists>t'. Domains l' k = Some (Some t') \<and> same_translations t' t)"
  proof (intro allI impI)
    fix k t assume t: "Domains l k = Some (Some t)"
    then obtain te t' where "gobDecodeTr G (fst (trs_MarshalBinary t)) = Inr te"
        "GetTranslator G te = Some t'" "same_translations t' t"
      using translator_round_trip by blast
    then show "\<exists>t'. Domains l' k = Some (Some t') \<and> same_translations t' t"
      using t entry [of k] by (simp add: F_def)
  qed
  have rest: "\<forall>k. Domains l k = None \<longrightarrow> Domains l' k = Domains r k"
    using entry by simp
  show ?thesis
    using l'(2,3,4) doms same rest by (simp add: un obj_def)
qed

theorem C9_marshal_unmarshal_round_trip_witness:
  "set [''app''] = dom (Domains
      \<lparr>path = ''/p'', lang = ''de_DE'', Domains = [''app'' \<mapsto> Some (constTrS ''Apfel'')],
       defaultDomain = ''app''\<rparr>)
   \<and> MarshalBinary
        (stubGob [1, 2, 3]
           \<lparr>Path = ''/p'', Lang = ''de_DE'',
            Domains_enc = [''app'' \<mapsto> fst (trs_MarshalBinary (constTrS ''Apfel''))],
            DefaultDomain = ''app''\<rparr> ''Apfel'')
        [''app'']
        \<lparr>path = ''/p'', lang = ''de_DE'', Domains = [''app'' \<mapsto> Some (constTrS ''Apfel'')],
         defaultDomain = ''app''\<rparr>
      = Inr ([1, 2, 3], None)
   \<and> fst (UnmarshalBinary
        (stubGob [1, 2, 3]
           \<lparr>Path = ''/p'', Lang = ''de_DE'',
            Domains_enc = [''app'' \<mapsto> fst (trs_MarshalBinary (constTrS ''Apfel''))],
            DefaultDomain = ''app''\<rparr> ''Apfel'')
        [''app'']
        \<lparr>path = '''', lang = '''', Domains = Map.empty, defaultDomain = ''''\<rparr>
        [1, 2, 3]) = None
   \<and> lang (snd (UnmarshalBinary
        (stubGob [1, 2, 3]
           \<lparr>Path = ''/p'', Lang = ''de_DE'',
            Domains_enc = [''app'' \<mapsto> fst (trs_MarshalBinary (constTrS ''Apfel''))],
            DefaultDomain = ''app''\<rparr> ''Apfel'')
        [''app'']
        \<lparr>path = '''', lang = '''', Domains = Map.empty, defaultDomain = ''''\<rparr>
        [1, 2, 3])) = ''de_DE''
   \<and> path (snd (UnmarshalBinary
        (stubGob [1, 2, 3]
           \<lparr>Path = ''/p'', Lang = ''de_DE'',
            Domains_enc = [''app'' \<mapsto> fst (trs_MarshalBinary (constTrS ''Apfel''))],
            DefaultDomain = ''app''\<rparr> ''Apfel'')
        [''app'']
        \<lparr>path = '''', lang = '''', Domains = Map.empty, defaultDomain = ''''\<rparr>
        [1, 2, 3])) = ''/p''
   \<and> defaultDomain (snd (UnmarshalBinary
        (stubGob [1, 2, 3]
           \<lparr>Path = ''/p'', Lang = ''de_DE'',
            Domains_enc = [''app'' \<mapsto> fst (trs_MarshalBinary (constTrS ''Apfel''))],
            DefaultDomain = ''app''\<rparr> ''Apfel'')
        [''app'']
        \<lparr>path = '''', lang = '''', Domains = Map.empty, defaultDomain = ''''\<rparr>
        [1, 2, 3])) = ''app''
   \<and> dom (Domains (snd (UnmarshalBinary
        (stubGob [1, 2, 3]
           \<lparr>Path = ''/p'', Lang = ''de_DE'',
            Domains_enc = [''app'' \<mapsto> fst (trs_MarshalBinary (constTrS ''Apfel''))],
            DefaultDomain = ''app''\<rparr> ''Apfel'')
        [''app'']
        \<lparr>path = '''', lang = '''', Domains = Map.empty, defaultDomain = ''''\<rparr>
        [1, 2, 3]))) = {''app''}"
proof -
  let ?l = "\<lparr>path = ''/p'', lang = ''de_DE'', Domains = [''app'' \<mapsto> Some (constTrS ''Apfel'')],
       defaultDomain = ''app''\<rparr> :: string LocaleS"
  let ?obj = "\<lparr>Path = ''/p'', Lang = ''de_DE'',
            Domains_enc = [''app'' \<mapsto> fst (trs_MarshalBinary (constTrS ''Apfel''))],
            DefaultDomain = ''app''\<rparr>"
  let ?G = "stubGob [1, 2, 3] ?obj ''Apfel''"
  let ?r = "\<lparr>path = '''', lang = '''', Domains = Map.empty, defaultDomain = ''''\<rparr> :: string LocaleS"
  have h1: "\<forall>k v. Domains ?l k = Some v \<longrightarrow> (\<exists>t. v = Some t \<and> snd (trs_MarshalBinary t) = None)"
    by (simp add: constTrS_def)
  have h2: "set [''app''] = dom (Domains ?l)"
    by simp
  have h3: "MarshalBinary ?G [''app''] ?l = Inr ([1, 2, 3], None)"
    by (simp add: MarshalBinary_def encodingOf_def stubGob_def constTrS_def)
  have h4: "\<forall>obj. encodingOf [''app''] ?l = Inr obj \<longrightarrow> gobDecode ?G (fst (gobEncode ?G obj)) = Inr obj"
    by (simp add: encodingOf_def stubGob_def constTrS_def)
  have h5: "\<forall>k t. Domains ?l k = Some (Some t) \<longrightarrow>
           (\<exists>te t'. gobDecodeTr ?G (fst (trs_MarshalBinary t)) = Inr te
                    \<and> GetTranslator ?G te = Some t' \<and> same_translations t' t)"
    by (simp add: stubGob_def same_translations_def)
  show ?thesis
    using C9_marshal_unmarshal_round_trip [OF h1 h2 h2 h3 h4 h5, of ?r] h2 h3
    by simp
qed

end
